theory Spec2Isabelle
  imports Main
begin

section \<open>Values and records of the A2A protocol (utils/a2a\_server.py)\<close>

text \<open>
  Python values that cross the protocol are JSON-shaped: \<open>None\<close>, booleans, integers,
  strings, lists and string-keyed dictionaries. A dictionary is an association list in
  insertion order, as Python's \<open>dict\<close> keeps it.
\<close>

datatype pyval =
    PNone
  | PBool bool
  | PInt int
  | PStr string
  | PList "pyval list"
  | PDict "(string \<times> pyval) list"

type_synonym pydict = "(string \<times> pyval) list"

text \<open>\<open>d.get(k)\<close>: the value stored under \<open>k\<close>, if any.\<close>

definition dict_get :: "pydict \<Rightarrow> string \<Rightarrow> pyval option" where
  "dict_get d k = map_of d k"

text \<open>\<open>d.get(k, default)\<close>.\<close>

definition dict_get_default :: "pydict \<Rightarrow> string \<Rightarrow> pyval \<Rightarrow> pyval" where
  "dict_get_default d k dflt = (case map_of d k of None \<Rightarrow> dflt | Some v \<Rightarrow> v)"

text \<open>\<open>d[k] = v\<close>: an existing key keeps its position, a new key goes last.\<close>

fun dict_set :: "pydict \<Rightarrow> string \<Rightarrow> pyval \<Rightarrow> pydict" where
  "dict_set [] k v = [(k, v)]"
| "dict_set ((k', v') # d) k v =
     (if k' = k then (k, v) # d else (k', v') # dict_set d k v)"

text \<open>Truth value of a Python object, as \<open>if x:\<close> and \<open>not x\<close> test it.\<close>

fun truthy :: "pyval \<Rightarrow> bool" where
  "truthy PNone = False"
| "truthy (PBool b) = b"
| "truthy (PInt i) = (i \<noteq> 0)"
| "truthy (PStr s) = (s \<noteq> [])"
| "truthy (PList xs) = (xs \<noteq> [])"
| "truthy (PDict d) = (d \<noteq> [])"

datatype TaskStatus =
    SUBMITTED
  | WORKING
  | COMPLETED
  | FAILED
  | INPUT_REQUIRED
  | CANCELLED

text \<open>The enum's string values, as \<open>status.value\<close> serialises them.\<close>

fun status_value :: "TaskStatus \<Rightarrow> string" where
  "status_value SUBMITTED = ''submitted''"
| "status_value WORKING = ''working''"
| "status_value COMPLETED = ''completed''"
| "status_value FAILED = ''failed''"
| "status_value INPUT_REQUIRED = ''input-required''"
| "status_value CANCELLED = ''cancelled''"

text \<open>\<open>AgentSkill\<close>; its field \<open>id\<close> is \<open>skill_ident\<close> here.\<close>

record AgentSkill =
  skill_ident :: string
  skill_name :: string
  skill_description :: string
  input_schema :: pydict
  output_schema :: pydict
  examples :: "string list"

text \<open>
  \<open>Artifact\<close>: the dataclass with fields \<open>type\<close>, \<open>content\<close> and \<open>metadata\<close>
  (default \<open>{}\<close>).
\<close>

record Artifact =
  artifact_type :: string
  content :: pyval
  metadata :: pydict

definition mk_artifact :: "string \<Rightarrow> pyval \<Rightarrow> Artifact" where
  "mk_artifact t c = \<lparr>artifact_type = t, content = c, metadata = []\<rparr>"

text \<open>
  What the list \<open>task.artifacts\<close> holds. It is annotated \<open>List[Artifact]\<close>, but
  nothing checks the items: an item is an \<open>Artifact\<close> or some other value.
\<close>

datatype list_item = Is_artifact Artifact | Not_artifact pyval

record TaskResponse =
  task_id :: string
  status :: TaskStatus
  artifacts :: "list_item list"
  error :: "string option"
  created_at :: string
  updated_at :: string

definition asdict_artifact :: "Artifact \<Rightarrow> pyval" where
  "asdict_artifact a =
     PDict [(''type'', PStr (artifact_type a)),
            (''content'', content a),
            (''metadata'', PDict (metadata a))]"

text \<open>
  The built-in exceptions the code raises or provokes; each carries \<open>str(e)\<close>.
  \<open>BaseException m\<close> stands for an exception that is not an \<open>Exception\<close>
  (\<open>asyncio.CancelledError\<close>, \<open>KeyboardInterrupt\<close>, \<open>SystemExit\<close>).
\<close>

datatype py_error =
    ValueError string
  | KeyError string
  | TypeError string
  | AttributeError string
  | IndexError string
  | BaseException string

fun str_of_error :: "py_error \<Rightarrow> string" where
  "str_of_error (ValueError m) = m"
| "str_of_error (KeyError m) = m"
| "str_of_error (TypeError m) = m"
| "str_of_error (AttributeError m) = m"
| "str_of_error (IndexError m) = m"
| "str_of_error (BaseException m) = m"

definition quoted :: "string \<Rightarrow> string" where
  "quoted s = [CHR 0x27] @ s @ [CHR 0x27]"

text \<open>
  \<open>[asdict(a) for a in self.artifacts]\<close>: \<open>asdict\<close> raises \<open>TypeError\<close> on the
  first item that is not a dataclass instance.
\<close>

fun asdict_items :: "list_item list \<Rightarrow> py_error + pyval list" where
  "asdict_items [] = Inr []"
| "asdict_items (Is_artifact a # xs) =
     (case asdict_items xs of
        Inl e \<Rightarrow> Inl e
      | Inr ds \<Rightarrow> Inr (asdict_artifact a # ds))"
| "asdict_items (Not_artifact v # xs) =
     Inl (TypeError ''asdict() should be called on dataclass instances'')"

text \<open>The dictionary of \<open>to_dict\<close>, given the converted artifacts.\<close>

definition task_dict :: "TaskResponse \<Rightarrow> pyval list \<Rightarrow> pyval" where
  "task_dict t ds =
     PDict [(''task_id'', PStr (task_id t)),
            (''status'', PStr (status_value (status t))),
            (''artifacts'', PList ds),
            (''error'', (case error t of None \<Rightarrow> PNone | Some e \<Rightarrow> PStr e)),
            (''created_at'', PStr (created_at t)),
            (''updated_at'', PStr (updated_at t))]"

definition to_dict :: "TaskResponse \<Rightarrow> py_error + pyval" where
  "to_dict t =
     (case asdict_items (artifacts t) of
        Inl e \<Rightarrow> Inl e
      | Inr ds \<Rightarrow> Inr (task_dict t ds))"

record TaskRequest =
  skill_id :: string
  parameters :: pydict
  req_context :: "pydict option"

section \<open>Skill handlers\<close>

text \<open>
  What a handler hands back to \<open>_execute_task\<close>, by the \<open>isinstance\<close> tests made
  there: a list (of any items), a single \<open>Artifact\<close>, a \<open>dict\<close>, a \<open>str\<close>, or a
  value of any other type, of which only \<open>str(result)\<close> is used.
\<close>

datatype handler_value =
    HList "list_item list"
  | HArtifact Artifact
  | HDict pydict
  | HStr string
  | HOther string

text \<open>
  A handler call returns a value, or raises an \<open>Exception\<close> (\<open>Raises m\<close>, with
  \<open>str(e) = m\<close>), or raises an exception that is not an \<open>Exception\<close>
  (\<open>Raises_base m\<close>), which \<open>except Exception\<close> does not catch.
\<close>

datatype handler_outcome = Returns handler_value | Raises string | Raises_base string

type_synonym handler = "pydict \<Rightarrow> pydict option \<Rightarrow> handler_outcome"

section \<open>The server\<close>

text \<open>
  The state of an \<open>A2AServer\<close>: the declared skills by id, the task store, the
  registered handlers, and the executions that \<open>create_task\<close> has handed to
  \<open>BackgroundTasks\<close> (task id, skill id, parameters, context).
\<close>

record A2AServer =
  skills :: "string \<rightharpoonup> AgentSkill"
  tasks :: "string \<rightharpoonup> TaskResponse"
  handlers :: "string \<rightharpoonup> handler"
  background :: "(string \<times> string \<times> pydict \<times> pydict option) list"

text \<open>
  \<open>HTTPException(status_code, detail)\<close>. The detail texts are kept by their kind and
  the skill id they quote: \<open>Unknown skill: <id>. Available: [...]\<close> of
  \<open>create_task\<close>, \<open>Unknown skill: <id>\<close> of \<open>create_task_sync\<close>, and
  \<open>Task not found\<close>.
\<close>

datatype http_detail =
    Unknown_skill_available string
  | Unknown_skill string
  | Task_not_found

datatype HTTPException = HTTPException nat http_detail

text \<open>
  \<open>TaskResponse(task_id=..., status=SUBMITTED)\<close>: the two timestamps come from two
  calls of \<open>datetime.utcnow()\<close>.
\<close>

definition new_task :: "string \<Rightarrow> string \<Rightarrow> string \<Rightarrow> TaskResponse" where
  "new_task tid t_created t_updated =
     \<lparr>task_id = tid, status = SUBMITTED, artifacts = [], error = None,
      created_at = t_created, updated_at = t_updated\<rparr>"

text \<open>The conversion of a handler's result to the artifact list.\<close>

fun result_to_artifacts :: "handler_value \<Rightarrow> list_item list" where
  "result_to_artifacts (HList xs) = xs"
| "result_to_artifacts (HArtifact a) = [Is_artifact a]"
| "result_to_artifacts (HDict d) = [Is_artifact (mk_artifact ''json'' (PDict d))]"
| "result_to_artifacts (HStr s) = [Is_artifact (mk_artifact ''text'' (PStr s))]"
| "result_to_artifacts (HOther s) = [Is_artifact (mk_artifact ''json'' (PStr s))]"

text \<open>
  \<open>_execute_task\<close> has one suspension point, \<open>await handler(parameters, context)\<close>.
  \<open>execute_begin\<close> is the code before it: the lookup \<open>self.tasks[task_id]\<close> (a
  \<open>KeyError\<close> outside the \<open>try\<close>) and the unconditional move to \<open>WORKING\<close>.
\<close>

definition execute_begin :: "A2AServer \<Rightarrow> string \<Rightarrow> string \<Rightarrow> py_error + A2AServer" where
  "execute_begin srv tid now =
     (case tasks srv tid of
        None \<Rightarrow> Inl (KeyError (quoted tid))
      | Some task \<Rightarrow>
          Inr (srv\<lparr>tasks := (tasks srv)(tid \<mapsto> task\<lparr>status := WORKING, updated_at := now\<rparr>)\<rparr>))"

text \<open>
  \<open>execute_end\<close> is the code after the handler's outcome is known: the result is
  stored and the status set to \<open>COMPLETED\<close>, or the exception is caught and the status
  set to \<open>FAILED\<close>; then \<open>updated_at\<close> is stamped. An exception that is not an
  \<open>Exception\<close> passes the \<open>except\<close> clause: none of this code runs and the task
  stays as it is. The task object was fetched in \<open>execute_begin\<close> and the store never
  drops an entry, so it is read from the store.
\<close>

definition finish_task :: "TaskResponse \<Rightarrow> handler_outcome \<Rightarrow> string \<Rightarrow> TaskResponse" where
  "finish_task task outcome now =
     (case outcome of
        Returns r \<Rightarrow>
          task\<lparr>artifacts := result_to_artifacts r, status := COMPLETED, updated_at := now\<rparr>
      | Raises m \<Rightarrow>
          task\<lparr>status := FAILED, error := Some m, updated_at := now\<rparr>
      | Raises_base m \<Rightarrow> task)"

text \<open>The exception that leaves \<open>_execute_task\<close> after the handler's call, if any.\<close>

definition escaping :: "handler_outcome \<Rightarrow> py_error option" where
  "escaping outcome =
     (case outcome of
        Returns r \<Rightarrow> None
      | Raises m \<Rightarrow> None
      | Raises_base m \<Rightarrow> Some (BaseException m))"

definition execute_end :: "A2AServer \<Rightarrow> string \<Rightarrow> handler_outcome \<Rightarrow> string \<Rightarrow> A2AServer" where
  "execute_end srv tid outcome now =
     (case tasks srv tid of
        None \<Rightarrow> srv
      | Some task \<Rightarrow> srv\<lparr>tasks := (tasks srv)(tid \<mapsto> finish_task task outcome now)\<rparr>)"

text \<open>
  The outcome of the \<open>try\<close> block's call: a skill without a registered handler raises
  \<open>ValueError\<close> inside the \<open>try\<close>.
\<close>

definition call_handler :: "A2AServer \<Rightarrow> string \<Rightarrow> pydict \<Rightarrow> pydict option \<Rightarrow> handler_outcome" where
  "call_handler srv sk params ctx =
     (case handlers srv sk of
        None \<Rightarrow> Raises (''No handler registered for skill: '' @ sk)
      | Some h \<Rightarrow> h params ctx)"

text \<open>
  \<open>_execute_task\<close> run without interruption, as \<open>create_task_sync\<close> awaits it: the
  server it leaves behind, and the exception that leaves it, if any.
\<close>

definition execute_task ::
  "A2AServer \<Rightarrow> string \<Rightarrow> string \<Rightarrow> pydict \<Rightarrow> pydict option \<Rightarrow> string \<Rightarrow> string
     \<Rightarrow> A2AServer \<times> py_error option" where
  "execute_task srv tid sk params ctx t_start t_end =
     (case execute_begin srv tid t_start of
        Inl e \<Rightarrow> (srv, Some e)
      | Inr srv1 \<Rightarrow>
          (let outcome = call_handler srv1 sk params ctx
           in (execute_end srv1 tid outcome t_end, escaping outcome)))"

text \<open>
  The routes. Each takes the server and returns it with what the route ends in: the
  response (\<open>Inr\<close>), the raised \<open>HTTPException\<close> (\<open>Inl (Inl h)\<close>), or another
  exception that leaves the route (\<open>Inl (Inr e)\<close>). The fresh \<open>uuid4\<close> and the clock
  readings are arguments.
\<close>

type_synonym route_result = "(HTTPException + py_error) + pyval"

text \<open>\<open>return task.to_dict()\<close>: an exception of \<open>to_dict\<close> leaves the route.\<close>

definition respond :: "py_error + pyval \<Rightarrow> route_result" where
  "respond r = (case r of Inl e \<Rightarrow> Inl (Inr e) | Inr v \<Rightarrow> Inr v)"

definition create_task ::
  "A2AServer \<Rightarrow> TaskRequest \<Rightarrow> string \<Rightarrow> string \<Rightarrow> string \<Rightarrow> A2AServer \<times> route_result" where
  "create_task srv request uuid t_created t_updated =
     (if skills srv (skill_id request) = None
      then (srv, Inl (Inl (HTTPException 400 (Unknown_skill_available (skill_id request)))))
      else
        let task = new_task uuid t_created t_updated
        in (srv\<lparr>tasks := (tasks srv)(uuid \<mapsto> task),
                background := background srv @
                  [(uuid, skill_id request, parameters request, req_context request)]\<rparr>,
            respond (to_dict task)))"

definition get_task_status :: "A2AServer \<Rightarrow> string \<Rightarrow> A2AServer \<times> route_result" where
  "get_task_status srv tid =
     (case tasks srv tid of
        None \<Rightarrow> (srv, Inl (Inl (HTTPException 404 Task_not_found)))
      | Some task \<Rightarrow> (srv, respond (to_dict task)))"

definition cancel_task :: "A2AServer \<Rightarrow> string \<Rightarrow> string \<Rightarrow> A2AServer \<times> route_result" where
  "cancel_task srv tid now =
     (case tasks srv tid of
        None \<Rightarrow> (srv, Inl (Inl (HTTPException 404 Task_not_found)))
      | Some task \<Rightarrow>
          (if status task \<in> set [SUBMITTED, WORKING]
           then
             let task' = task\<lparr>status := CANCELLED, updated_at := now\<rparr>
             in (srv\<lparr>tasks := (tasks srv)(tid \<mapsto> task')\<rparr>, respond (to_dict task'))
           else (srv, respond (to_dict task))))"

text \<open>
  \<open>create_task_sync\<close>: the response is \<open>self.tasks[task_id].to_dict()\<close> after the
  awaited execution. An exception leaving \<open>_execute_task\<close> leaves the route too.
\<close>

definition create_task_sync ::
  "A2AServer \<Rightarrow> TaskRequest \<Rightarrow> string \<Rightarrow> string \<Rightarrow> string \<Rightarrow> string \<Rightarrow> string
     \<Rightarrow> A2AServer \<times> route_result" where
  "create_task_sync srv request uuid t_created t_updated t_start t_end =
     (if skills srv (skill_id request) = None
      then (srv, Inl (Inl (HTTPException 400 (Unknown_skill (skill_id request)))))
      else
        let task = new_task uuid t_created t_updated;
            srv1 = srv\<lparr>tasks := (tasks srv)(uuid \<mapsto> task)\<rparr>
        in (case execute_task srv1 uuid (skill_id request) (parameters request)
                   (req_context request) t_start t_end of
              (srv2, Some e) \<Rightarrow> (srv2, Inl (Inr e))
            | (srv2, None) \<Rightarrow>
                (case tasks srv2 uuid of
                   None \<Rightarrow> (srv2, Inl (Inr (KeyError (quoted uuid))))
                 | Some t \<Rightarrow> (srv2, respond (to_dict t)))))"

text \<open>\<open>register_handler\<close>: only a declared skill can be given a handler.\<close>

definition register_handler :: "A2AServer \<Rightarrow> string \<Rightarrow> handler \<Rightarrow> py_error + A2AServer" where
  "register_handler srv sk h =
     (if skills srv sk = None then Inl (ValueError (''Unknown skill: '' @ sk))
      else Inr (srv\<lparr>handlers := (handlers srv)(sk \<mapsto> h)\<rparr>))"

section \<open>The client (utils/a2a\_client.py)\<close>

text \<open>
  The requests \<open>send_task\<close> and \<open>_poll_task\<close> make. The first argument is the agent's
  base address after \<open>rstrip('/')\<close>; \<open>Get_task\<close> carries the task id that is
  formatted into the address.
\<close>

datatype http_request =
    Post_tasks string pyval
  | Post_tasks_sync string pyval
  | Get_task string pyval

text \<open>
  What a request comes back with: a transport failure (connection error, timeout), or
  a response with its status code and its body, \<open>None\<close> when the body is not JSON.
\<close>

datatype http_outcome =
    Transport_failure string
  | Response nat "pyval option"

datatype client_error =
    TransportError string
  | HTTPStatusError nat
  | JSONDecodeError
  | Python_error py_error
  | TimeoutError pyval
  | RetryError client_error

text \<open>
  The network: the outcome of the \<open>i\<close>-th request made, and the requests made so far.
  The sleeps between polls and between retries take time only and are left out.
\<close>

record network =
  script :: "nat \<Rightarrow> http_outcome"
  sent :: "http_request list"

definition http_call :: "network \<Rightarrow> http_request \<Rightarrow> http_outcome \<times> network" where
  "http_call net req = (script net (length (sent net)), net\<lparr>sent := sent net @ [req]\<rparr>)"

definition rstrip_slash :: "string \<Rightarrow> string" where
  "rstrip_slash s = rev (dropWhile (\<lambda>c. c = CHR ''/'') (rev s))"

text \<open>\<open>response.raise_for_status()\<close> followed by \<open>response.json()\<close>.\<close>

definition response_json :: "http_outcome \<Rightarrow> client_error + pyval" where
  "response_json out =
     (case out of
        Transport_failure m \<Rightarrow> Inl (TransportError m)
      | Response code body \<Rightarrow>
          (if \<not> (200 \<le> code \<and> code \<le> 299) then Inl (HTTPStatusError code)
           else (case body of None \<Rightarrow> Inl JSONDecodeError | Some v \<Rightarrow> Inr v)))"

text \<open>The name of a value's type, as it appears in the interpreter's messages.\<close>

fun type_name :: "pyval \<Rightarrow> string" where
  "type_name PNone = ''NoneType''"
| "type_name (PBool b) = ''bool''"
| "type_name (PInt i) = ''int''"
| "type_name (PStr s) = ''str''"
| "type_name (PList xs) = ''list''"
| "type_name (PDict d) = ''dict''"

text \<open>\<open>v.get(k, default)\<close> on any value: only a dictionary has \<open>get\<close>.\<close>

definition py_get :: "pyval \<Rightarrow> string \<Rightarrow> pyval \<Rightarrow> py_error + pyval" where
  "py_get v k dflt =
     (case v of
        PDict d \<Rightarrow> Inr (dict_get_default d k dflt)
      | _ \<Rightarrow> Inl (AttributeError
                 (quoted (type_name v) @ '' object has no attribute '' @ quoted ''get'')))"

text \<open>\<open>v[k]\<close> with a string key \<open>k\<close>.\<close>

definition py_subscript :: "pyval \<Rightarrow> string \<Rightarrow> py_error + pyval" where
  "py_subscript v k =
     (case v of
        PDict d \<Rightarrow> (case dict_get d k of None \<Rightarrow> Inl (KeyError (quoted k)) | Some x \<Rightarrow> Inr x)
      | PList xs \<Rightarrow> Inl (TypeError ''list indices must be integers or slices, not str'')
      | PStr s \<Rightarrow> Inl (TypeError (''string indices must be integers, not '' @ quoted ''str''))
      | _ \<Rightarrow> Inl (TypeError (quoted (type_name v) @ '' object is not subscriptable'')))"

text \<open>The client's settings that the protocol logic reads.\<close>

record A2AClient =
  max_poll_attempts :: int

definition terminal_statuses :: "pyval list" where
  "terminal_statuses = [PStr ''completed'', PStr ''failed'', PStr ''cancelled'']"

text \<open>
  One pass through the body of the poll loop. \<open>Poll_return r\<close> is \<open>return result\<close>;
  \<open>Poll_again\<close> is the sleep after a record that is not terminal; \<open>Poll_failed e\<close> is
  the \<open>except Exception\<close> branch, which logs, sleeps and goes on.
\<close>

datatype poll_step = Poll_return pyval | Poll_again | Poll_failed client_error

definition poll_body :: "http_outcome \<Rightarrow> poll_step" where
  "poll_body out =
     (case response_json out of
        Inl e \<Rightarrow> Poll_failed e
      | Inr result \<Rightarrow>
          (case py_get result ''status'' PNone of
             Inl e \<Rightarrow> Poll_failed (Python_error e)
           | Inr st \<Rightarrow> if st \<in> set terminal_statuses then Poll_return result else Poll_again))"

text \<open>Whether a reply makes the poll loop return.\<close>

definition returns_record :: "http_outcome \<Rightarrow> bool" where
  "returns_record out = (case poll_body out of Poll_return r \<Rightarrow> True | _ \<Rightarrow> False)"

text \<open>\<open>for _ in range(n)\<close>, then \<open>raise TimeoutError\<close>.\<close>

fun poll_loop :: "nat \<Rightarrow> string \<Rightarrow> pyval \<Rightarrow> network \<Rightarrow> (client_error + pyval) \<times> network" where
  "poll_loop 0 base tid net = (Inl (TimeoutError tid), net)"
| "poll_loop (Suc k) base tid net =
     (case http_call net (Get_task base tid) of
        (out, net') \<Rightarrow>
          (case poll_body out of
             Poll_return result \<Rightarrow> (Inr result, net')
           | Poll_again \<Rightarrow> poll_loop k base tid net'
           | Poll_failed e \<Rightarrow> poll_loop k base tid net'))"

definition poll_task ::
  "A2AClient \<Rightarrow> string \<Rightarrow> pyval \<Rightarrow> network \<Rightarrow> (client_error + pyval) \<times> network" where
  "poll_task client agent_url tid net =
     poll_loop (nat (max_poll_attempts client)) (rstrip_slash agent_url) tid net"

text \<open>
  The body of \<open>send_task\<close>, one attempt. Both \<open>except\<close> clauses log and re-raise,
  so an exception of the body leaves it unchanged.
\<close>

definition task_payload :: "string \<Rightarrow> pydict \<Rightarrow> pydict option \<Rightarrow> pyval" where
  "task_payload sk params ctx =
     PDict [(''skill_id'', PStr sk),
            (''parameters'', PDict params),
            (''context'', (case ctx of None \<Rightarrow> PNone | Some c \<Rightarrow> PDict c))]"

definition send_task_attempt ::
  "A2AClient \<Rightarrow> string \<Rightarrow> string \<Rightarrow> pydict \<Rightarrow> pydict option \<Rightarrow> bool \<Rightarrow> network
     \<Rightarrow> (client_error + pyval) \<times> network" where
  "send_task_attempt client agent_url sk params ctx wait_for_completion net =
     (let base = rstrip_slash agent_url;
          payload = task_payload sk params ctx
      in case http_call net
                (if wait_for_completion then Post_tasks_sync base payload
                 else Post_tasks base payload) of
           (out, net1) \<Rightarrow>
             (case response_json out of
                Inl e \<Rightarrow> (Inl e, net1)
              | Inr result \<Rightarrow>
                  (if \<not> wait_for_completion
                   then (case py_subscript result ''task_id'' of
                           Inl e \<Rightarrow> (Inl (Python_error e), net1)
                         | Inr tid \<Rightarrow> poll_task client agent_url tid net1)
                   else (Inr result, net1))))"

text \<open>
  The decorator \<open>@retry(stop=stop_after_attempt(n), wait=...)\<close> of the tenacity
  library: the function is called again after every exception, until it returns or the
  \<open>n\<close>-th attempt has failed; then \<open>RetryError\<close> is raised, holding the last
  exception. \<open>retry_more k f e\<close> has \<open>k\<close> attempts left after a failure with \<open>e\<close>.
\<close>

fun retry_more ::
  "nat \<Rightarrow> ('s \<Rightarrow> (client_error + 'a) \<times> 's) \<Rightarrow> client_error \<Rightarrow> 's \<Rightarrow> (client_error + 'a) \<times> 's" where
  "retry_more 0 f e s = (Inl (RetryError e), s)"
| "retry_more (Suc k) f e s =
     (case f s of
        (Inr v, s') \<Rightarrow> (Inr v, s')
      | (Inl e', s') \<Rightarrow> retry_more k f e' s')"

definition retry :: "nat \<Rightarrow> ('s \<Rightarrow> (client_error + 'a) \<times> 's) \<Rightarrow> 's \<Rightarrow> (client_error + 'a) \<times> 's" where
  "retry n f s =
     (case f s of
        (Inr v, s') \<Rightarrow> (Inr v, s')
      | (Inl e, s') \<Rightarrow> retry_more (n - 1) f e s')"

text \<open>\<open>send_task\<close> as decorated: \<open>stop_after_attempt(3)\<close> around the whole body.\<close>

definition send_task ::
  "A2AClient \<Rightarrow> string \<Rightarrow> string \<Rightarrow> pydict \<Rightarrow> pydict option \<Rightarrow> bool \<Rightarrow> network
     \<Rightarrow> (client_error + pyval) \<times> network" where
  "send_task client agent_url sk params ctx wait_for_completion =
     retry 3 (send_task_attempt client agent_url sk params ctx wait_for_completion)"

section \<open>The coordinator (agents/orchestrator.py)\<close>

record AgentEndpoint =
  endpoint_name :: string
  endpoint_url :: string
  endpoint_skills :: "string list"

text \<open>
  The collaborators of the coordinator, taken as parameters:
  \<^item> \<open>sender url skill params\<close> is \<open>a2a_client.send_task(..., wait_for_completion=True)\<close>:
    the returned record, or \<open>Inl m\<close> for an \<open>Exception\<close> with \<open>str(e) = m\<close>;
  \<^item> \<open>planner question\<close> is \<open>orchestrator_program.plan\<close> with the fixed
    \<open>BUSINESS_CONTEXT\<close>: the prediction's \<open>task_plan\<close> and \<open>required_skills\<close>,
    or an exception;
  \<^item> \<open>synthesizer question agent_results\<close> is \<open>synthesize_results\<close>: the
    prediction's \<open>answer\<close>, \<open>recommendations\<close> and \<open>confidence\<close>, or an exception;
  \<^item> \<open>to_str\<close> is Python's \<open>str\<close> on a dictionary.
\<close>

type_synonym sender = "string \<Rightarrow> string \<Rightarrow> pydict \<Rightarrow> string + pyval"
type_synonym planner = "pyval \<Rightarrow> string + (string \<times> string)"
type_synonym synthesizer = "pyval \<Rightarrow> string \<Rightarrow> string + (string \<times> string \<times> string)"

text \<open>\<open>v[0]\<close>.\<close>

fun py_index0 :: "pyval \<Rightarrow> py_error + pyval" where
  "py_index0 (PList []) = Inl (IndexError ''list index out of range'')"
| "py_index0 (PList (x # xs)) = Inr x"
| "py_index0 (PStr []) = Inl (IndexError ''string index out of range'')"
| "py_index0 (PStr (c # cs)) = Inr (PStr [c])"
| "py_index0 (PDict d) = Inl (KeyError ''0'')"
| "py_index0 v = Inl (TypeError (quoted (type_name v) @ '' object is not subscriptable''))"

text \<open>\<open>return {"error": result.get("error", "Unknown error")}\<close>.\<close>

definition error_result :: "pyval \<Rightarrow> py_error + pyval" where
  "error_result result =
     (case py_get result ''error'' (PStr ''Unknown error'') of
        Inl e \<Rightarrow> Inl e
      | Inr v \<Rightarrow> Inr (PDict [(''error'', v)]))"

text \<open>The part of \<open>_call_agent\<close>'s \<open>try\<close> block that follows the reply.\<close>

definition call_agent_reply :: "pyval \<Rightarrow> py_error + pyval" where
  "call_agent_reply result =
     (case py_get result ''status'' PNone of
        Inl e \<Rightarrow> Inl e
      | Inr st \<Rightarrow>
          (if st = PStr ''completed''
           then (case py_get result ''artifacts'' (PList []) of
                   Inl e \<Rightarrow> Inl e
                 | Inr arts \<Rightarrow>
                     (if truthy arts
                      then (case py_index0 arts of
                              Inl e \<Rightarrow> Inl e
                            | Inr a \<Rightarrow> py_get a ''content'' (PDict []))
                      else error_result result))
           else error_result result))"

text \<open>
  \<open>_call_agent\<close>: the \<open>ValueError\<close> for an unknown agent is raised before the
  \<open>try\<close>; every exception inside it becomes \<open>{"error": str(e)}\<close>.
\<close>

definition call_agent ::
  "(string \<rightharpoonup> AgentEndpoint) \<Rightarrow> sender \<Rightarrow> string \<Rightarrow> string \<Rightarrow> pydict \<Rightarrow> py_error + pyval" where
  "call_agent agents send agent_name sk params =
     (case agents agent_name of
        None \<Rightarrow> Inl (ValueError (''Unknown agent: '' @ agent_name))
      | Some agent \<Rightarrow>
          Inr (case send (endpoint_url agent) sk params of
                 Inl m \<Rightarrow> PDict [(''error'', PStr m)]
               | Inr result \<Rightarrow>
                   (case call_agent_reply result of
                      Inl e \<Rightarrow> PDict [(''error'', PStr (str_of_error e))]
                    | Inr v \<Rightarrow> v)))"

text \<open>
  \<open>s.split(",")\<close> and \<open>s.strip()\<close>. A \<open>char\<close> is a code point below U+0100;
  \<open>is_space\<close> lists all of those for which \<open>str.isspace\<close> holds, U+0085 and U+00A0
  included.
\<close>

fun split_comma :: "string \<Rightarrow> string list" where
  "split_comma [] = [[]]"
| "split_comma (c # cs) =
     (if c = CHR '','' then [] # split_comma cs
      else (case split_comma cs of
              [] \<Rightarrow> [[c]]
            | w # ws \<Rightarrow> (c # w) # ws))"

definition is_space :: "char \<Rightarrow> bool" where
  "is_space c =
     (c \<in> set [CHR 0x20, CHR 0x09, CHR 0x0A, CHR 0x0B, CHR 0x0C, CHR 0x0D,
                CHR 0x1C, CHR 0x1D, CHR 0x1E, CHR 0x1F, CHR 0x85, CHR 0xA0])"

definition strip :: "string \<Rightarrow> string" where
  "strip s = rev (dropWhile is_space (rev (dropWhile is_space s)))"

definition parse_required_skills :: "string \<Rightarrow> string list" where
  "parse_required_skills req = map strip (split_comma req)"

text \<open>\<open>results["steps"].append(x)\<close> and \<open>results["agent_results"][k] = v\<close>.\<close>

definition steps_append :: "pydict \<Rightarrow> pyval \<Rightarrow> pydict" where
  "steps_append results x =
     (case dict_get results ''steps'' of
        Some (PList xs) \<Rightarrow> dict_set results ''steps'' (PList (xs @ [x]))
      | _ \<Rightarrow> results)"

definition agent_results_put :: "pydict \<Rightarrow> string \<Rightarrow> pyval \<Rightarrow> pydict" where
  "agent_results_put results k v =
     (case dict_get results ''agent_results'' of
        Some (PDict d) \<Rightarrow> dict_set results ''agent_results'' (PDict (dict_set d k v))
      | _ \<Rightarrow> results)"

text \<open>
  The steps of the \<open>try\<close> block of \<open>_handle_answer_question\<close>. A step that raises
  gives \<open>Inl (str(e), results)\<close> with the dictionary as the exception found it.
\<close>

definition planning_step ::
  "planner \<Rightarrow> pyval \<Rightarrow> pydict \<Rightarrow> (string \<times> pydict) + (pydict \<times> string list)" where
  "planning_step plan question results =
     (case plan question of
        Inl m \<Rightarrow> Inl (m, results)
      | Inr (task_plan, required) \<Rightarrow>
          Inr (steps_append (dict_set results ''plan'' (PStr task_plan))
                 (PDict [(''step'', PStr ''planning''),
                         (''result'', PStr ''Created analysis plan'')]),
               parse_required_skills required))"

definition discovery_step ::
  "(string \<rightharpoonup> AgentEndpoint) \<Rightarrow> sender \<Rightarrow> string list \<Rightarrow> pyval \<Rightarrow> pydict
     \<Rightarrow> (string \<times> pydict) + pydict" where
  "discovery_step agents send required question results =
     (if ''discover-tables'' \<in> set required \<and> agents ''data_discovery'' \<noteq> None
      then (case call_agent agents send ''data_discovery'' ''discover-tables''
                   [(''question'', question)] of
              Inl e \<Rightarrow> Inl (str_of_error e, results)
            | Inr discovery_result \<Rightarrow>
                (let results1 = agent_results_put results ''data_discovery'' discovery_result
                 in case py_get discovery_result ''tables'' (PList []) of
                      Inl e \<Rightarrow> Inl (str_of_error e, results1)
                    | Inr tables \<Rightarrow>
                        Inr (steps_append results1
                               (PDict [(''step'', PStr ''data_discovery''),
                                       (''tables'', tables)]))))
      else Inr results)"

definition sql_step ::
  "(string \<rightharpoonup> AgentEndpoint) \<Rightarrow> sender \<Rightarrow> string list \<Rightarrow> pyval \<Rightarrow> pydict
     \<Rightarrow> (string \<times> pydict) + pydict" where
  "sql_step agents send required question results =
     (if ''text-to-sql'' \<in> set required \<and> agents ''sql_generation'' \<noteq> None
      then (case py_get (dict_get_default results ''agent_results'' (PDict []))
                   ''data_discovery'' (PDict []) of
              Inl e \<Rightarrow> Inl (str_of_error e, results)
            | Inr found \<Rightarrow>
                (case py_get found ''tables'' (PList []) of
                   Inl e \<Rightarrow> Inl (str_of_error e, results)
                 | Inr tables \<Rightarrow>
                     (case call_agent agents send ''sql_generation'' ''text-to-sql''
                             [(''requirement'', question), (''tables'', tables),
                              (''execute'', PBool True)] of
                        Inl e \<Rightarrow> Inl (str_of_error e, results)
                      | Inr sql_result \<Rightarrow>
                          (let results1 = agent_results_put results ''sql_generation'' sql_result
                           in case py_get sql_result ''sql'' (PStr []) of
                                Inl e \<Rightarrow> Inl (str_of_error e, results1)
                              | Inr sql \<Rightarrow>
                                  (case py_get sql_result ''row_count'' (PInt 0) of
                                     Inl e \<Rightarrow> Inl (str_of_error e, results1)
                                   | Inr row_count \<Rightarrow>
                                       Inr (steps_append results1
                                              (PDict [(''step'', PStr ''sql_generation''),
                                                      (''sql'', sql),
                                                      (''row_count'', row_count)])))))))
      else Inr results)"

definition synthesis_step ::
  "synthesizer \<Rightarrow> (pyval \<Rightarrow> string) \<Rightarrow> pyval \<Rightarrow> pydict \<Rightarrow> (string \<times> pydict) + pydict" where
  "synthesis_step synth to_str question results =
     (case synth question (to_str (dict_get_default results ''agent_results'' (PDict []))) of
        Inl m \<Rightarrow> Inl (m, results)
      | Inr (answer, recommendations, confidence) \<Rightarrow>
          Inr (dict_set (dict_set (dict_set results ''answer'' (PStr answer))
                           ''recommendations'' (PStr recommendations))
                 ''confidence'' (PStr confidence)))"

definition answer_steps ::
  "(string \<rightharpoonup> AgentEndpoint) \<Rightarrow> sender \<Rightarrow> planner \<Rightarrow> synthesizer \<Rightarrow> (pyval \<Rightarrow> string)
     \<Rightarrow> pyval \<Rightarrow> pydict \<Rightarrow> (string \<times> pydict) + pydict" where
  "answer_steps agents send plan synth to_str question results =
     (case planning_step plan question results of
        Inl x \<Rightarrow> Inl x
      | Inr (results1, required) \<Rightarrow>
          (case discovery_step agents send required question results1 of
             Inl x \<Rightarrow> Inl x
           | Inr results2 \<Rightarrow>
               (case sql_step agents send required question results2 of
                  Inl x \<Rightarrow> Inl x
                | Inr results3 \<Rightarrow> synthesis_step synth to_str question results3)))"

text \<open>
  \<open>question[:100]\<close> in the log line, outside the \<open>try\<close>: a string or a list can be
  sliced, any other value raises (the text for a dictionary is the one of Python 3.11).
\<close>

fun slice_error :: "pyval \<Rightarrow> string option" where
  "slice_error (PStr s) = None"
| "slice_error (PList xs) = None"
| "slice_error (PDict d) = Some (''unhashable type: '' @ quoted ''slice'')"
| "slice_error v = Some (quoted (type_name v) @ '' object is not subscriptable'')"

text \<open>
  \<open>_handle_answer_question\<close>, a skill handler: it raises for a missing question,
  and otherwise returns one \<open>json\<close> artifact holding \<open>results\<close>, with an \<open>error\<close>
  entry when the \<open>try\<close> block raised.
\<close>

definition handle_answer_question ::
  "(string \<rightharpoonup> AgentEndpoint) \<Rightarrow> sender \<Rightarrow> planner \<Rightarrow> synthesizer \<Rightarrow> (pyval \<Rightarrow> string)
     \<Rightarrow> handler" where
  "handle_answer_question agents send plan synth to_str params ctx =
     (let question = dict_get_default params ''question'' (PStr [])
      in if \<not> truthy question then Raises ''Question is required''
         else (case slice_error question of
                 Some m \<Rightarrow> Raises m
               | None \<Rightarrow>
                   (case answer_steps agents send plan synth to_str question
                           [(''question'', question), (''steps'', PList []),
                            (''agent_results'', PDict [])] of
                      Inl (m, results) \<Rightarrow>
                        Returns (HList [Is_artifact
                                          (mk_artifact ''json''
                                             (PDict (dict_set results ''error'' (PStr m))))])
                    | Inr results \<Rightarrow>
                        Returns (HList [Is_artifact (mk_artifact ''json'' (PDict results))]))))"

section \<open>Example configurations\<close>

definition echo_skill :: AgentSkill where
  "echo_skill =
     \<lparr>skill_ident = ''echo'', skill_name = ''Echo'', skill_description = ''Echo the input'',
      input_schema = [], output_schema = [], examples = []\<rparr>"

definition echo_handler :: handler where
  "echo_handler params ctx = Returns (HStr ''done'')"

definition failing_handler :: handler where
  "failing_handler params ctx = Raises ''boom''"

text \<open>A server with one declared skill and its handler registered.\<close>

definition demo_server :: A2AServer where
  "demo_server =
     \<lparr>skills = [''echo'' \<mapsto> echo_skill], tasks = Map.empty,
      handlers = [''echo'' \<mapsto> echo_handler], background = []\<rparr>"

text \<open>The same skill declared, but no handler registered for it.\<close>

definition bare_server :: A2AServer where
  "bare_server =
     \<lparr>skills = [''echo'' \<mapsto> echo_skill], tasks = Map.empty,
      handlers = Map.empty, background = []\<rparr>"

definition echo_request :: TaskRequest where
  "echo_request = \<lparr>skill_id = ''echo'', parameters = [], req_context = None\<rparr>"

definition other_request :: TaskRequest where
  "other_request = \<lparr>skill_id = ''other'', parameters = [], req_context = None\<rparr>"

definition done_task :: TaskResponse where
  "done_task =
     \<lparr>task_id = ''t1'', status = COMPLETED, artifacts = [Is_artifact (mk_artifact ''text'' (PStr ''done''))],
      error = None, created_at = ''10:00'', updated_at = ''10:05''\<rparr>"

definition stored_server :: A2AServer where
  "stored_server = demo_server\<lparr>tasks := [''t1'' \<mapsto> done_task]\<rparr>"

definition fresh_server :: A2AServer where
  "fresh_server = demo_server\<lparr>tasks := [''t1'' \<mapsto> new_task ''t1'' ''10:00'' ''10:00'']\<rparr>"

definition failing_server :: A2AServer where
  "failing_server = fresh_server\<lparr>handlers := [''echo'' \<mapsto> failing_handler]\<rparr>"

text \<open>A handler that ends in \<open>SystemExit("shutdown")\<close>, which is not an \<open>Exception\<close>.\<close>

definition exiting_handler :: handler where
  "exiting_handler params ctx = Raises_base ''shutdown''"

definition exiting_server :: A2AServer where
  "exiting_server = fresh_server\<lparr>handlers := [''echo'' \<mapsto> exiting_handler]\<rparr>"

text \<open>A handler that returns the list \<open>["a", "b"]\<close>.\<close>

definition strings_handler :: handler where
  "strings_handler params ctx = Returns (HList [Not_artifact (PStr ''a''), Not_artifact (PStr ''b'')])"

definition strings_server :: A2AServer where
  "strings_server = fresh_server\<lparr>handlers := [''echo'' \<mapsto> strings_handler]\<rparr>"

text \<open>Whether every item of a list is an \<open>Artifact\<close>.\<close>

fun is_artifact :: "list_item \<Rightarrow> bool" where
  "is_artifact (Is_artifact a) = True"
| "is_artifact (Not_artifact v) = False"

text \<open>
  A run in which a client cancels a task while its handler is in flight: submission,
  start of the background execution, cancellation, end of the execution.
\<close>

definition run_submitted :: A2AServer where
  "run_submitted = fst (create_task demo_server echo_request ''t1'' ''10:00'' ''10:00'')"

definition run_working :: A2AServer where
  "run_working =
     (case execute_begin run_submitted ''t1'' ''10:01'' of
        Inl e \<Rightarrow> run_submitted
      | Inr srv \<Rightarrow> srv)"

definition run_cancelled :: A2AServer where
  "run_cancelled = fst (cancel_task run_working ''t1'' ''10:02'')"

definition run_finished :: A2AServer where
  "run_finished =
     execute_end run_cancelled ''t1'' (call_handler run_working ''echo'' [] None) ''10:03''"

definition status_in :: "A2AServer \<Rightarrow> string \<Rightarrow> TaskStatus option" where
  "status_in srv tid = map_option status (tasks srv tid)"

text \<open>
  A run in which the cancellation arrives before the background execution has started.
\<close>

definition early_cancelled :: A2AServer where
  "early_cancelled = fst (cancel_task run_submitted ''t1'' ''10:01'')"

definition early_working :: A2AServer where
  "early_working =
     (case execute_begin early_cancelled ''t1'' ''10:02'' of
        Inl e \<Rightarrow> early_cancelled
      | Inr srv \<Rightarrow> srv)"

definition early_finished :: A2AServer where
  "early_finished =
     execute_end early_working ''t1'' (call_handler early_working ''echo'' [] None) ''10:03''"

definition projr_option :: "'e + 'a \<Rightarrow> 'a option" where
  "projr_option x = (case x of Inl e \<Rightarrow> None | Inr v \<Rightarrow> Some v)"

text \<open>Replies of a remote agent to a polling client.\<close>

definition working_record :: pyval where
  "working_record = PDict [(''task_id'', PStr ''t1''), (''status'', PStr ''working'')]"

definition completed_record :: pyval where
  "completed_record = PDict [(''task_id'', PStr ''t1''), (''status'', PStr ''completed'')]"

definition stuck_network :: network where
  "stuck_network = \<lparr>script = (\<lambda>i. Response 200 (Some working_record)), sent = []\<rparr>"


text \<open>
  An agent that gives every submission a fresh task id and never finishes: requests
  0 and 1 are about \<open>t1\<close>, 2 and 3 about \<open>t2\<close>, the later ones about \<open>t3\<close>.
\<close>

definition fresh_ids :: "nat \<Rightarrow> pyval" where
  "fresh_ids k = PStr (if k = 0 then ''t1'' else if k = 1 then ''t2'' else ''t3'')"

definition fresh_network :: network where
  "fresh_network =
     \<lparr>script = (\<lambda>i. Response 200
                      (Some (PDict [(''task_id'', fresh_ids (i div 2)),
                                    (''status'', PStr ''working'')]))),
      sent = []\<rparr>"

text \<open>A network that drops the first request and then answers.\<close>

definition recovering_network :: network where
  "recovering_network =
     \<lparr>script = (\<lambda>i. if i = 0 then Transport_failure ''connection refused''
                     else if i = 1 then Response 200 (Some working_record)
                     else Response 200 (Some completed_record)),
      sent = []\<rparr>"

definition impatient_client :: A2AClient where
  "impatient_client = \<lparr>max_poll_attempts = 1\<rparr>"


text \<open>A coordinator that knows the discovery agent only, and others.\<close>

definition discovery_endpoint :: AgentEndpoint where
  "discovery_endpoint =
     \<lparr>endpoint_name = ''data_discovery'', endpoint_url = ''http://localhost:8001'',
      endpoint_skills = [''discover-tables'']\<rparr>"

definition discovery_only :: "string \<rightharpoonup> AgentEndpoint" where
  "discovery_only = [''data_discovery'' \<mapsto> discovery_endpoint]"

definition tables_found :: pydict where
  "tables_found = [(''tables'', PList [PStr ''sales''])]"

definition discovery_sender :: sender where
  "discovery_sender url sk params =
     Inr (PDict [(''task_id'', PStr ''t1''),
                 (''status'', PStr ''completed''),
                 (''artifacts'',
                    PList [PDict [(''type'', PStr ''json''),
                                  (''content'', PDict tables_found),
                                  (''metadata'', PDict [])]]),
                 (''error'', PNone)])"

definition sql_endpoint :: AgentEndpoint where
  "sql_endpoint =
     \<lparr>endpoint_name = ''sql_generation'', endpoint_url = ''http://localhost:8002'',
      endpoint_skills = [''text-to-sql'']\<rparr>"

definition sql_only :: "string \<rightharpoonup> AgentEndpoint" where
  "sql_only = [''sql_generation'' \<mapsto> sql_endpoint]"

definition no_agents :: "string \<rightharpoonup> AgentEndpoint" where
  "no_agents = Map.empty"

definition sql_found :: pydict where
  "sql_found = [(''sql'', PStr ''SELECT 1''), (''row_count'', PInt 1)]"

definition sql_sender :: sender where
  "sql_sender url sk params =
     Inr (PDict [(''task_id'', PStr ''t3''),
                 (''status'', PStr ''completed''),
                 (''artifacts'',
                    PList [PDict [(''type'', PStr ''json''),
                                  (''content'', PDict sql_found),
                                  (''metadata'', PDict [])]]),
                 (''error'', PNone)])"

definition empty_sender :: sender where
  "empty_sender url sk params =
     Inr (task_dict \<lparr>task_id = ''t2'', status = COMPLETED, artifacts = [], error = None,
                     created_at = ''10:00'', updated_at = ''10:01''\<rparr> [])"

definition two_step_planner :: planner where
  "two_step_planner question = Inr (''1. find tables 2. query'', ''discover-tables, text-to-sql'')"

definition fixed_synthesizer :: synthesizer where
  "fixed_synthesizer question agent_results = Inr (''Sales fell'', ''Restock'', ''medium'')"

definition shown :: "pyval \<Rightarrow> string" where
  "shown v = ''agent results''"

definition sales_question :: pydict where
  "sales_question = [(''question'', PStr ''Why are sales declining?'')]"

section \<open>Properties of the server\<close>

lemmas server_defs =
  create_task_def create_task_sync_def cancel_task_def execute_task_def execute_begin_def
  execute_end_def call_handler_def finish_task_def escaping_def new_task_def respond_def
  to_dict_def Let_def

lemmas example_defs =
  demo_server_def bare_server_def echo_request_def other_request_def echo_skill_def
  echo_handler_def failing_handler_def done_task_def stored_server_def fresh_server_def
  failing_server_def exiting_handler_def exiting_server_def strings_handler_def
  strings_server_def

text \<open>
  C1. Claimed: a task goes through \<open>SUBMITTED\<close>, \<open>WORKING\<close> and exactly one
  terminal state, and nothing changes a terminal state. The run below is a submission,
  the start of its background execution, a cancellation while the handler is in flight,
  and the end of the execution: the task is \<open>CANCELLED\<close> and then \<open>COMPLETED\<close>,
  because the end of \<open>_execute_task\<close> writes the status without reading it. When the
  cancellation comes before the execution starts, the start moves the task from
  \<open>CANCELLED\<close> to \<open>WORKING\<close> in the same way.
\<close>

theorem cancelled_task_completes:
  "background run_submitted = [(''t1'', ''echo'', [], None)] \<and>
   map (\<lambda>srv. status_in srv ''t1'') [run_submitted, run_working, run_cancelled, run_finished] =
     [Some SUBMITTED, Some WORKING, Some CANCELLED, Some COMPLETED] \<and>
   map (\<lambda>srv. status_in srv ''t1'')
       [run_submitted, early_cancelled, early_working, early_finished] =
     [Some SUBMITTED, Some CANCELLED, Some WORKING, Some COMPLETED]"
  by (simp add: run_submitted_def run_working_def run_cancelled_def run_finished_def
        early_cancelled_def early_working_def early_finished_def
        status_in_def server_defs example_defs)

text \<open>
  C2. A submission, asynchronous or synchronous, whose skill id is not among the
  declared skills is answered with the invalid-request error (status code 400), and the
  server, its task store included, is as it was.
\<close>

theorem unknown_skill_rejected:
  "skills srv (skill_id request) = None \<Longrightarrow>
     create_task srv request uuid t_created t_updated =
       (srv, Inl (Inl (HTTPException 400 (Unknown_skill_available (skill_id request))))) \<and>
     create_task_sync srv request uuid t_created t_updated t_start t_end =
       (srv, Inl (Inl (HTTPException 400 (Unknown_skill (skill_id request)))))"
  by (simp add: create_task_def create_task_sync_def)

theorem unknown_skill_rejected_witness:
  "skills demo_server (skill_id other_request) = None \<and>
   create_task demo_server other_request ''t1'' ''10:00'' ''10:00'' =
     (demo_server, Inl (Inl (HTTPException 400 (Unknown_skill_available ''other'')))) \<and>
   create_task_sync demo_server other_request ''t1'' ''10:00'' ''10:00'' ''10:01'' ''10:02'' =
     (demo_server, Inl (Inl (HTTPException 400 (Unknown_skill ''other''))))"
proof -
  have h: "skills demo_server (skill_id other_request) = None"
    by (simp add: demo_server_def other_request_def)
  show ?thesis
    using h unknown_skill_rejected [OF h] by (simp add: other_request_def)
qed

text \<open>
  C3. Claimed: no task is created, or moved to \<open>WORKING\<close>, for a skill without a
  resolvable handler. On a server that declares the skill \<open>echo\<close> and has no handler
  for it, the synchronous submission stores a task and returns it as \<open>FAILED\<close>.
\<close>

theorem handlerless_skill_counterexample:
  "handlers bare_server (skill_id echo_request) = None \<and>
   tasks bare_server ''t1'' = None \<and>
   status_in (fst (create_task bare_server echo_request ''t1'' ''10:00'' ''10:00'')) ''t1''
     = Some SUBMITTED \<and>
   create_task_sync bare_server echo_request ''t1'' ''10:00'' ''10:00'' ''10:01'' ''10:02'' =
     (bare_server\<lparr>tasks :=
        [''t1'' \<mapsto> \<lparr>task_id = ''t1'', status = FAILED, artifacts = [],
                     error = Some ''No handler registered for skill: echo'',
                     created_at = ''10:00'', updated_at = ''10:02''\<rparr>]\<rparr>,
      Inr (task_dict \<lparr>task_id = ''t1'', status = FAILED, artifacts = [],
                      error = Some ''No handler registered for skill: echo'',
                      created_at = ''10:00'', updated_at = ''10:02''\<rparr> []))"
  by (simp add: status_in_def server_defs example_defs)

text \<open>
  C3, as the code has it. Submission checks the declared skills only. A skill that is
  not declared is rejected with nothing stored. A declared skill without a registered
  handler is accepted: the task is stored as \<open>SUBMITTED\<close>, the execution moves it to
  \<open>WORKING\<close> and then records the missing handler on it, as \<open>FAILED\<close> with the
  error text \<open>No handler registered for skill: <id>\<close>.
\<close>

theorem handlerless_skill_fails_after_creation:
  "(skills srv (skill_id request) = None \<longrightarrow>
      fst (create_task srv request uuid t_created t_updated) = srv \<and>
      fst (create_task_sync srv request uuid t_created t_updated t_start t_end) = srv) \<and>
   (skills srv (skill_id request) \<noteq> None \<and> handlers srv (skill_id request) = None \<longrightarrow>
      tasks (fst (create_task srv request uuid t_created t_updated)) uuid =
        Some (new_task uuid t_created t_updated) \<and>
      map_option (\<lambda>s. status_in s uuid)
        (projr_option (execute_begin (fst (create_task srv request uuid t_created t_updated))
                         uuid t_start)) = Some (Some WORKING) \<and>
      create_task_sync srv request uuid t_created t_updated t_start t_end =
        (srv\<lparr>tasks := (tasks srv)(uuid \<mapsto> (new_task uuid t_created t_updated)
                  \<lparr>status := FAILED,
                   error := Some (''No handler registered for skill: '' @ skill_id request),
                   updated_at := t_end\<rparr>)\<rparr>,
         Inr (task_dict ((new_task uuid t_created t_updated)
                           \<lparr>status := FAILED,
                            error := Some (''No handler registered for skill: '' @ skill_id request),
                            updated_at := t_end\<rparr>) [])))"
  by (auto simp add: status_in_def projr_option_def server_defs)

theorem handlerless_skill_fails_after_creation_witness:
  "skills bare_server (skill_id echo_request) \<noteq> None \<and>
   handlers bare_server (skill_id echo_request) = None \<and>
   skills bare_server (skill_id other_request) = None \<and>
   fst (create_task bare_server other_request ''t1'' ''10:00'' ''10:00'') = bare_server \<and>
   snd (create_task_sync bare_server echo_request ''t1'' ''10:00'' ''10:00'' ''10:01'' ''10:02'') =
     Inr (task_dict ((new_task ''t1'' ''10:00'' ''10:00'')
                       \<lparr>status := FAILED,
                        error := Some ''No handler registered for skill: echo'',
                        updated_at := ''10:02''\<rparr>) [])"
  using handlerless_skill_fails_after_creation
          [of bare_server echo_request "''t1''" "''10:00''" "''10:00''" "''10:01''" "''10:02''"]
        handlerless_skill_fails_after_creation
          [of bare_server other_request "''t1''" "''10:00''" "''10:00''" "''10:01''" "''10:02''"]
  by (simp add: bare_server_def echo_request_def other_request_def)

text \<open>
  C4. Claimed: whenever the handler raises, the task becomes \<open>FAILED\<close> and nothing is
  propagated to the caller of the execution. A handler that ends in \<open>SystemExit\<close>, which
  \<open>except Exception\<close> does not catch, leaves the task \<open>WORKING\<close>, and the exception
  leaves the execution and the synchronous route.
\<close>

theorem handler_exception_counterexample:
  "exiting_handler [] None = Raises_base ''shutdown'' \<and>
   execute_task exiting_server ''t1'' ''echo'' [] None ''10:01'' ''10:02'' =
     (exiting_server\<lparr>tasks := (tasks exiting_server)(''t1'' \<mapsto>
        (new_task ''t1'' ''10:00'' ''10:00'')\<lparr>status := WORKING, updated_at := ''10:01''\<rparr>)\<rparr>,
      Some (BaseException ''shutdown'')) \<and>
   create_task_sync exiting_server echo_request ''t2'' ''10:00'' ''10:00'' ''10:01'' ''10:02'' =
     (exiting_server\<lparr>tasks := (tasks exiting_server)(''t2'' \<mapsto>
        (new_task ''t2'' ''10:00'' ''10:00'')\<lparr>status := WORKING, updated_at := ''10:01''\<rparr>)\<rparr>,
      Inl (Inr (BaseException ''shutdown'')))"
  by (simp add: server_defs example_defs)

text \<open>
  C4, as the code has it. When the handler raises an \<open>Exception\<close>, the execution ends
  normally (nothing leaves it) with the task \<open>FAILED\<close> and the exception's text as its
  error; this holds for the execution as a whole, for the code after the handler on any
  store that holds the task, and for the answer of the synchronous route. When the
  handler raises an exception that is not an \<open>Exception\<close>, it is not caught: it leaves
  the execution, and the task stays \<open>WORKING\<close> as the start of the execution left it.
\<close>

theorem handler_exception_recorded:
  "(tasks srv tid = Some task \<and> handlers srv sk = Some h \<and> h params ctx = Raises m \<longrightarrow>
      execute_task srv tid sk params ctx t_start t_end =
        (srv\<lparr>tasks := (tasks srv)(tid \<mapsto>
               task\<lparr>status := FAILED, error := Some m, updated_at := t_end\<rparr>)\<rparr>,
         None)) \<and>
   (tasks later tid = Some found \<longrightarrow>
      execute_end later tid (Raises m) t_end =
        later\<lparr>tasks := (tasks later)(tid \<mapsto>
               found\<lparr>status := FAILED, error := Some m, updated_at := t_end\<rparr>)\<rparr> \<and>
      escaping (Raises m) = None) \<and>
   (skills srv (skill_id request) \<noteq> None \<and> handlers srv (skill_id request) = Some h \<and>
    h (parameters request) (req_context request) = Raises m \<longrightarrow>
      snd (create_task_sync srv request uuid t_created t_updated t_start t_end) =
        Inr (task_dict ((new_task uuid t_created t_updated)
                          \<lparr>status := FAILED, error := Some m, updated_at := t_end\<rparr>) [])) \<and>
   (tasks srv tid = Some task \<and> handlers srv sk = Some h \<and> h params ctx = Raises_base m \<longrightarrow>
      execute_task srv tid sk params ctx t_start t_end =
        (srv\<lparr>tasks := (tasks srv)(tid \<mapsto> task\<lparr>status := WORKING, updated_at := t_start\<rparr>)\<rparr>,
         Some (BaseException m)))"
  by (auto simp add: server_defs)

theorem handler_exception_recorded_witness:
  "tasks failing_server ''t1'' = Some (new_task ''t1'' ''10:00'' ''10:00'') \<and>
   handlers failing_server ''echo'' = Some failing_handler \<and>
   failing_handler [] None = Raises ''boom'' \<and>
   skills failing_server (skill_id echo_request) \<noteq> None \<and>
   execute_task failing_server ''t1'' ''echo'' [] None ''10:01'' ''10:02'' =
     (failing_server\<lparr>tasks := (tasks failing_server)(''t1'' \<mapsto>
        (new_task ''t1'' ''10:00'' ''10:00'')
          \<lparr>status := FAILED, error := Some ''boom'', updated_at := ''10:02''\<rparr>)\<rparr>,
      None) \<and>
   execute_end failing_server ''t1'' (Raises ''boom'') ''10:02'' =
     failing_server\<lparr>tasks := (tasks failing_server)(''t1'' \<mapsto>
       (new_task ''t1'' ''10:00'' ''10:00'')
         \<lparr>status := FAILED, error := Some ''boom'', updated_at := ''10:02''\<rparr>)\<rparr> \<and>
   snd (create_task_sync failing_server echo_request ''t2'' ''10:00'' ''10:00'' ''10:01'' ''10:02'') =
     Inr (task_dict ((new_task ''t2'' ''10:00'' ''10:00'')
                       \<lparr>status := FAILED, error := Some ''boom'', updated_at := ''10:02''\<rparr>) []) \<and>
   tasks exiting_server ''t1'' = Some (new_task ''t1'' ''10:00'' ''10:00'') \<and>
   handlers exiting_server ''echo'' = Some exiting_handler \<and>
   exiting_handler [] None = Raises_base ''shutdown'' \<and>
   execute_task exiting_server ''t1'' ''echo'' [] None ''10:01'' ''10:02'' =
     (exiting_server\<lparr>tasks := (tasks exiting_server)(''t1'' \<mapsto>
        (new_task ''t1'' ''10:00'' ''10:00'')\<lparr>status := WORKING, updated_at := ''10:01''\<rparr>)\<rparr>,
      Some (BaseException ''shutdown''))"
proof -
  have h: "tasks failing_server ''t1'' = Some (new_task ''t1'' ''10:00'' ''10:00'') \<and>
           handlers failing_server ''echo'' = Some failing_handler \<and>
           failing_handler [] None = Raises ''boom'' \<and>
           skills failing_server (skill_id echo_request) \<noteq> None"
    by (simp add: failing_server_def fresh_server_def demo_server_def failing_handler_def
          echo_request_def)
  have r: "skill_id echo_request = ''echo'' \<and> parameters echo_request = [] \<and>
           req_context echo_request = None"
    by (simp add: echo_request_def)
  have x: "tasks exiting_server ''t1'' = Some (new_task ''t1'' ''10:00'' ''10:00'') \<and>
           handlers exiting_server ''echo'' = Some exiting_handler \<and>
           exiting_handler [] None = Raises_base ''shutdown''"
    by (simp add: exiting_server_def fresh_server_def demo_server_def exiting_handler_def)
  note caught =
    handler_exception_recorded
      [where srv = failing_server and tid = "''t1''" and task = "new_task ''t1'' ''10:00'' ''10:00''"
         and sk = "''echo''" and h = failing_handler and params = "[]" and ctx = None
         and m = "''boom''" and t_start = "''10:01''" and t_end = "''10:02''"
         and later = failing_server and found = "new_task ''t1'' ''10:00'' ''10:00''"
         and request = echo_request and uuid = "''t2''" and t_created = "''10:00''"
         and t_updated = "''10:00''"]
  note passed =
    handler_exception_recorded
      [where srv = exiting_server and tid = "''t1''" and task = "new_task ''t1'' ''10:00'' ''10:00''"
         and sk = "''echo''" and h = exiting_handler and params = "[]" and ctx = None
         and m = "''shutdown''" and t_start = "''10:01''" and t_end = "''10:02''"]
  have a: "execute_task failing_server ''t1'' ''echo'' [] None ''10:01'' ''10:02'' =
     (failing_server\<lparr>tasks := (tasks failing_server)(''t1'' \<mapsto>
        (new_task ''t1'' ''10:00'' ''10:00'')
          \<lparr>status := FAILED, error := Some ''boom'', updated_at := ''10:02''\<rparr>)\<rparr>,
      None)"
    using caught h by blast
  have b: "execute_end failing_server ''t1'' (Raises ''boom'') ''10:02'' =
     failing_server\<lparr>tasks := (tasks failing_server)(''t1'' \<mapsto>
       (new_task ''t1'' ''10:00'' ''10:00'')
         \<lparr>status := FAILED, error := Some ''boom'', updated_at := ''10:02''\<rparr>)\<rparr>"
    using caught h by blast
  have c: "snd (create_task_sync failing_server echo_request ''t2'' ''10:00'' ''10:00''
                  ''10:01'' ''10:02'') =
     Inr (task_dict ((new_task ''t2'' ''10:00'' ''10:00'')
                       \<lparr>status := FAILED, error := Some ''boom'', updated_at := ''10:02''\<rparr>) [])"
    using caught h r by simp
  have d: "execute_task exiting_server ''t1'' ''echo'' [] None ''10:01'' ''10:02'' =
     (exiting_server\<lparr>tasks := (tasks exiting_server)(''t1'' \<mapsto>
        (new_task ''t1'' ''10:00'' ''10:00'')\<lparr>status := WORKING, updated_at := ''10:01''\<rparr>)\<rparr>,
      Some (BaseException ''shutdown''))"
    using passed x by blast
  from h x a b c d show ?thesis by blast
qed




text \<open>
  C9. Claimed: whatever the handler returns, the completed task holds a list of
  artifacts. A handler that returns the list \<open>["a", "b"]\<close> leaves a \<open>COMPLETED\<close> task
  whose artifact list is that list of strings, and the synchronous route then fails in
  \<open>to_dict\<close>.
\<close>

theorem list_result_counterexample:
  "strings_handler [] None = Returns (HList [Not_artifact (PStr ''a''), Not_artifact (PStr ''b'')]) \<and>
   execute_task strings_server ''t1'' ''echo'' [] None ''10:01'' ''10:02'' =
     (strings_server\<lparr>tasks := (tasks strings_server)(''t1'' \<mapsto>
        (new_task ''t1'' ''10:00'' ''10:00'')
          \<lparr>artifacts := [Not_artifact (PStr ''a''), Not_artifact (PStr ''b'')],
           status := COMPLETED, updated_at := ''10:02''\<rparr>)\<rparr>,
      None) \<and>
   snd (create_task_sync strings_server echo_request ''t2'' ''10:00'' ''10:00'' ''10:01'' ''10:02'') =
     Inl (Inr (TypeError ''asdict() should be called on dataclass instances''))"
  by (simp add: server_defs example_defs)

text \<open>
  C9, as the code has it. When the handler returns, the task is \<open>COMPLETED\<close> and its
  artifact list is chosen by the shape of the result: the one artifact for a single
  artifact, one \<open>json\<close> artifact holding the dictionary for a dictionary, one \<open>text\<close>
  artifact holding the text for a string, one \<open>json\<close> artifact holding \<open>str(result)\<close>
  for any other value that is not a list, and for a list the list itself, with no check
  of its items. So the stored list is a list of artifacts exactly when the result is not
  a list, or is a list of artifacts.
\<close>

theorem handler_result_normalized:
  "(tasks srv tid = Some task \<and> handlers srv sk = Some h \<and> h params ctx = Returns r \<longrightarrow>
      execute_task srv tid sk params ctx t_start t_end =
        (srv\<lparr>tasks := (tasks srv)(tid \<mapsto>
               task\<lparr>artifacts :=
                      (case r of
                         HList xs \<Rightarrow> xs
                       | HArtifact a \<Rightarrow> [Is_artifact a]
                       | HDict d \<Rightarrow>
                           [Is_artifact
                              \<lparr>artifact_type = ''json'', content = PDict d, metadata = []\<rparr>]
                       | HStr s \<Rightarrow>
                           [Is_artifact
                              \<lparr>artifact_type = ''text'', content = PStr s, metadata = []\<rparr>]
                       | HOther s \<Rightarrow>
                           [Is_artifact
                              \<lparr>artifact_type = ''json'', content = PStr s, metadata = []\<rparr>]),
                    status := COMPLETED, updated_at := t_end\<rparr>)\<rparr>,
         None)) \<and>
   list_all is_artifact (result_to_artifacts r) =
     (case r of HList xs \<Rightarrow> list_all is_artifact xs | _ \<Rightarrow> True)"
  by (cases r) (auto simp add: server_defs mk_artifact_def)

theorem handler_result_normalized_witness:
  "tasks fresh_server ''t1'' = Some (new_task ''t1'' ''10:00'' ''10:00'') \<and>
   handlers fresh_server ''echo'' = Some echo_handler \<and>
   echo_handler [] None = Returns (HStr ''done'') \<and>
   execute_task fresh_server ''t1'' ''echo'' [] None ''10:01'' ''10:02'' =
     (fresh_server\<lparr>tasks := (tasks fresh_server)(''t1'' \<mapsto>
        (new_task ''t1'' ''10:00'' ''10:00'')
          \<lparr>artifacts :=
             [Is_artifact \<lparr>artifact_type = ''text'', content = PStr ''done'', metadata = []\<rparr>],
           status := COMPLETED, updated_at := ''10:02''\<rparr>)\<rparr>,
      None) \<and>
   list_all is_artifact (result_to_artifacts (HStr ''done''))"
proof -
  have h: "tasks fresh_server ''t1'' = Some (new_task ''t1'' ''10:00'' ''10:00'') \<and>
           handlers fresh_server ''echo'' = Some echo_handler \<and>
           echo_handler [] None = Returns (HStr ''done'')"
    by (simp add: fresh_server_def demo_server_def echo_handler_def)
  from handler_result_normalized
         [of fresh_server "''t1''" "new_task ''t1'' ''10:00'' ''10:00''" "''echo''"
             echo_handler "[]" None "HStr ''done''" "''10:01''" "''10:02''"] h
  show ?thesis by simp
qed

section \<open>Properties of the client\<close>

lemma http_call_eq:
  "http_call net req = (script net (length (sent net)), net\<lparr>sent := sent net @ [req]\<rparr>)"
  by (simp add: http_call_def)

text \<open>A budget of \<open>k\<close> polls none of which returns a record ends in the timeout.\<close>

lemma poll_loop_exhausted:
  "(\<And>i. i < k \<Longrightarrow> \<not> returns_record (script net (length (sent net) + i))) \<Longrightarrow>
     poll_loop k base tid net =
       (Inl (TimeoutError tid), net\<lparr>sent := sent net @ replicate k (Get_task base tid)\<rparr>)"
proof (induction k arbitrary: net)
  case 0
  then show ?case by simp
next
  case (Suc k)
  let ?net' = "net\<lparr>sent := sent net @ [Get_task base tid]\<rparr>"
  have first: "\<not> returns_record (script net (length (sent net)))"
    using Suc.prems [of 0] by simp
  have rest: "\<And>i. i < k \<Longrightarrow> \<not> returns_record (script ?net' (length (sent ?net') + i))"
    using Suc.prems by fastforce
  have "poll_loop (Suc k) base tid net = poll_loop k base tid ?net'"
    using first by (simp add: http_call_eq returns_record_def split: poll_step.splits)
  also have "\<dots> = (Inl (TimeoutError tid),
                     ?net'\<lparr>sent := sent ?net' @ replicate k (Get_task base tid)\<rparr>)"
    by (rule Suc.IH [OF rest])
  finally show ?case by (simp add: replicate_append_same)
qed



lemma poll_body_record:
  "200 \<le> code \<Longrightarrow> code \<le> 299 \<Longrightarrow>
     poll_body (Response code (Some (PDict d))) =
       (if dict_get_default d ''status'' PNone \<in> set terminal_statuses
        then Poll_return (PDict d) else Poll_again)"
  by (simp add: poll_body_def response_json_def py_get_def)





text \<open>What the poll loop leaves behind: the same network with some polls sent.\<close>

lemma poll_loop_sent:
  "\<exists>j\<le>k. snd (poll_loop k base tid net) =
           net\<lparr>sent := sent net @ replicate j (Get_task base tid)\<rparr>"
proof (induction k arbitrary: net)
  case 0
  then show ?case by simp
next
  case (Suc k)
  let ?net' = "net\<lparr>sent := sent net @ [Get_task base tid]\<rparr>"
  from Suc.IH [of ?net'] obtain j where j: "j \<le> k"
    and rest: "snd (poll_loop k base tid ?net') =
                 ?net'\<lparr>sent := sent ?net' @ replicate j (Get_task base tid)\<rparr>"
    by blast
  show ?case
  proof (cases "poll_body (script net (length (sent net)))")
    case (Poll_return r)
    then have "snd (poll_loop (Suc k) base tid net) =
                 net\<lparr>sent := sent net @ replicate (Suc 0) (Get_task base tid)\<rparr>"
      by (simp add: http_call_eq)
    then show ?thesis by (intro exI [of _ "Suc 0"]) simp
  next
    case Poll_again
    then have "snd (poll_loop (Suc k) base tid net) =
                 net\<lparr>sent := sent net @ replicate (Suc j) (Get_task base tid)\<rparr>"
      using rest by (simp add: http_call_eq)
    then show ?thesis using j by (intro exI [of _ "Suc j"]) simp
  next
    case (Poll_failed e)
    then have "snd (poll_loop (Suc k) base tid net) =
                 net\<lparr>sent := sent net @ replicate (Suc j) (Get_task base tid)\<rparr>"
      using rest by (simp add: http_call_eq)
    then show ?thesis using j by (intro exI [of _ "Suc j"]) simp
  qed
qed

text \<open>One attempt of \<open>send_task\<close> without waiting, by the reply to its submission.\<close>

lemma attempt_creation_failed:
  "response_json (script net (length (sent net))) = Inl e \<Longrightarrow>
     send_task_attempt client agent_url sk params ctx False net =
       (Inl e, net\<lparr>sent := sent net @
          [Post_tasks (rstrip_slash agent_url) (task_payload sk params ctx)]\<rparr>)"
  by (simp add: send_task_attempt_def http_call_eq)

lemma attempt_times_out:
  assumes created: "response_json (script net (length (sent net))) = Inr result"
    and tid: "py_subscript result ''task_id'' = Inr tid"
    and pending: "\<And>i. i < nat (max_poll_attempts client) \<Longrightarrow>
                    \<not> returns_record (script net (Suc (length (sent net)) + i))"
  shows "send_task_attempt client agent_url sk params ctx False net =
           (Inl (TimeoutError tid),
            net\<lparr>sent := sent net @
              Post_tasks (rstrip_slash agent_url) (task_payload sk params ctx) #
              replicate (nat (max_poll_attempts client))
                (Get_task (rstrip_slash agent_url) tid)\<rparr>)"
proof -
  let ?net1 = "net\<lparr>sent := sent net @
                 [Post_tasks (rstrip_slash agent_url) (task_payload sk params ctx)]\<rparr>"
  have none: "\<And>i. i < nat (max_poll_attempts client) \<Longrightarrow>
                \<not> returns_record (script ?net1 (length (sent ?net1) + i))"
    using pending by simp
  have poll: "poll_task client agent_url tid ?net1 =
                (Inl (TimeoutError tid),
                 ?net1\<lparr>sent := sent ?net1 @ replicate (nat (max_poll_attempts client))
                                                (Get_task (rstrip_slash agent_url) tid)\<rparr>)"
    unfolding poll_task_def by (rule poll_loop_exhausted [OF none])
  show ?thesis
    by (simp add: send_task_attempt_def http_call_eq created tid poll)
qed

lemma attempt_sends_creation:
  "\<exists>j tid. j \<le> nat (max_poll_attempts client) \<and>
     snd (send_task_attempt client agent_url sk params ctx False net) =
       net\<lparr>sent := sent net @
         Post_tasks (rstrip_slash agent_url) (task_payload sk params ctx) #
         replicate j (Get_task (rstrip_slash agent_url) tid)\<rparr>"
proof -
  let ?post = "Post_tasks (rstrip_slash agent_url) (task_payload sk params ctx)"
  let ?net1 = "net\<lparr>sent := sent net @ [?post]\<rparr>"
  let ?a = "send_task_attempt client agent_url sk params ctx False net"
  have none: "\<And>tid. ?net1 = net\<lparr>sent := sent net @ ?post #
                          replicate 0 (Get_task (rstrip_slash agent_url) tid)\<rparr>"
    by simp
  show ?thesis
  proof (cases "response_json (script net (length (sent net)))")
    case (Inl e)
    then have "snd ?a = ?net1"
      by (simp add: attempt_creation_failed)
    then show ?thesis
      using none by (intro exI [of _ 0] exI [of _ PNone]) simp
  next
    case (Inr result)
    show ?thesis
    proof (cases "py_subscript result ''task_id''")
      case (Inl e)
      then have "snd ?a = ?net1"
        using Inr by (simp add: send_task_attempt_def http_call_eq)
      then show ?thesis
        using none by (intro exI [of _ 0] exI [of _ PNone]) simp
    next
      case (Inr tid)
      from poll_loop_sent [of "nat (max_poll_attempts client)" "rstrip_slash agent_url" tid ?net1]
      obtain j where j: "j \<le> nat (max_poll_attempts client)"
        and polled: "snd (poll_task client agent_url tid ?net1) =
                       ?net1\<lparr>sent := sent ?net1 @
                                 replicate j (Get_task (rstrip_slash agent_url) tid)\<rparr>"
        unfolding poll_task_def by blast
      have "snd ?a = snd (poll_task client agent_url tid ?net1)"
        using Inr \<open>response_json (script net (length (sent net))) = Inr result\<close>
        by (simp add: send_task_attempt_def http_call_eq)
      then have "snd ?a = net\<lparr>sent := sent net @ ?post #
                   replicate j (Get_task (rstrip_slash agent_url) tid)\<rparr>"
        using polled by simp
      then show ?thesis
        using j by (intro exI [of _ j] exI [of _ tid]) simp
    qed
  qed
qed

text \<open>The three attempts of the decorator, written out.\<close>

lemma send_task_unrolled:
  "send_task client agent_url sk params ctx w net =
     (case send_task_attempt client agent_url sk params ctx w net of
        (Inr v, net1) \<Rightarrow> (Inr v, net1)
      | (Inl e1, net1) \<Rightarrow>
          (case send_task_attempt client agent_url sk params ctx w net1 of
             (Inr v, net2) \<Rightarrow> (Inr v, net2)
           | (Inl e2, net2) \<Rightarrow>
               (case send_task_attempt client agent_url sk params ctx w net2 of
                  (Inr v, net3) \<Rightarrow> (Inr v, net3)
                | (Inl e3, net3) \<Rightarrow> (Inl (RetryError e3), net3))))"
  by (simp add: send_task_def retry_def numeral_2_eq_2
        split: prod.splits sum.splits)

text \<open>
  C5. Claimed: in the path without waiting only the task creation is retried, and a
  poll loop that runs out does not cause the submission to be sent again. A client with
  a budget of one poll, on a network where the task stays \<open>working\<close>, sends the
  submission three times.
\<close>

theorem poll_timeout_resubmits_counterexample:
  "send_task impatient_client ''http://agent'' ''echo'' [] None False stuck_network =
     (Inl (RetryError (TimeoutError (PStr ''t1''))),
      stuck_network\<lparr>sent :=
        [Post_tasks ''http://agent''
           (PDict [(''skill_id'', PStr ''echo''), (''parameters'', PDict []), (''context'', PNone)]),
         Get_task ''http://agent'' (PStr ''t1''),
         Post_tasks ''http://agent''
           (PDict [(''skill_id'', PStr ''echo''), (''parameters'', PDict []), (''context'', PNone)]),
         Get_task ''http://agent'' (PStr ''t1''),
         Post_tasks ''http://agent''
           (PDict [(''skill_id'', PStr ''echo''), (''parameters'', PDict []), (''context'', PNone)]),
         Get_task ''http://agent'' (PStr ''t1'')]\<rparr>)"
  by (simp add: send_task_def retry_def send_task_attempt_def task_payload_def http_call_eq
        response_json_def py_subscript_def dict_get_def poll_task_def poll_body_def py_get_def
        dict_get_default_def terminal_statuses_def rstrip_slash_def numeral_2_eq_2 Let_def
        impatient_client_def stuck_network_def working_record_def)

text \<open>
  C5, as the code has it. The retry decorator is on \<open>send_task\<close> as a whole, the
  polling included:
  \<^item> the call is up to three attempts of the whole body, each starting where the one
    before left the network; the first attempt that returns ends the call with its
    result, any exception of an attempt leads to the next one, and after the third
    failure \<open>RetryError\<close> is raised with the last exception;
  \<^item> an attempt without waiting sends the submission and after it at most
    \<open>max_poll_attempts\<close> polls, nothing else;
  \<^item> an attempt whose submission fails raises that failure without polling;
  \<^item> an attempt whose submission is answered with a task id, and whose poll budget
    runs out, raises the timeout;
  \<^item> so, when each of the three submissions is answered (with task ids \<open>ids 0\<close>,
    \<open>ids 1\<close>, \<open>ids 2\<close>, equal or not) and no reply makes a poll return, the
    submission is sent three times, each followed by \<open>max_poll_attempts\<close> polls, and
    the call raises \<open>RetryError\<close> holding the last timeout.
\<close>

theorem send_task_retries_whole_attempt:
  "send_task client agent_url sk params ctx w net =
     (case send_task_attempt client agent_url sk params ctx w net of
        (Inr v, net1) \<Rightarrow> (Inr v, net1)
      | (Inl e1, net1) \<Rightarrow>
          (case send_task_attempt client agent_url sk params ctx w net1 of
             (Inr v, net2) \<Rightarrow> (Inr v, net2)
           | (Inl e2, net2) \<Rightarrow>
               (case send_task_attempt client agent_url sk params ctx w net2 of
                  (Inr v, net3) \<Rightarrow> (Inr v, net3)
                | (Inl e3, net3) \<Rightarrow> (Inl (RetryError e3), net3)))) \<and>
   (\<exists>j tid. j \<le> nat (max_poll_attempts client) \<and>
      snd (send_task_attempt client agent_url sk params ctx False net) =
        net\<lparr>sent := sent net @
          Post_tasks (rstrip_slash agent_url) (task_payload sk params ctx) #
          replicate j (Get_task (rstrip_slash agent_url) tid)\<rparr>) \<and>
   (response_json (script net (length (sent net))) = Inl e \<longrightarrow>
      send_task_attempt client agent_url sk params ctx False net =
        (Inl e, net\<lparr>sent := sent net @
           [Post_tasks (rstrip_slash agent_url) (task_payload sk params ctx)]\<rparr>)) \<and>
   (response_json (script net (length (sent net))) = Inr result \<and>
    py_subscript result ''task_id'' = Inr tid \<and>
    (\<forall>i < nat (max_poll_attempts client).
       \<not> returns_record (script net (Suc (length (sent net)) + i))) \<longrightarrow>
      send_task_attempt client agent_url sk params ctx False net =
        (Inl (TimeoutError tid),
         net\<lparr>sent := sent net @
           Post_tasks (rstrip_slash agent_url) (task_payload sk params ctx) #
           replicate (nat (max_poll_attempts client))
             (Get_task (rstrip_slash agent_url) tid)\<rparr>)) \<and>
   ((\<forall>i. \<not> returns_record (script net i)) \<and>
    (\<forall>k < 3. \<exists>r. response_json
                     (script net (length (sent net) + k * Suc (nat (max_poll_attempts client))))
                    = Inr r \<and>
                  py_subscript r ''task_id'' = Inr (ids k)) \<longrightarrow>
      send_task client agent_url sk params ctx False net =
        (Inl (RetryError (TimeoutError (ids 2))),
         net\<lparr>sent := sent net @
           (Post_tasks (rstrip_slash agent_url) (task_payload sk params ctx) #
            replicate (nat (max_poll_attempts client))
              (Get_task (rstrip_slash agent_url) (ids 0))) @
           (Post_tasks (rstrip_slash agent_url) (task_payload sk params ctx) #
            replicate (nat (max_poll_attempts client))
              (Get_task (rstrip_slash agent_url) (ids 1))) @
           (Post_tasks (rstrip_slash agent_url) (task_payload sk params ctx) #
            replicate (nat (max_poll_attempts client))
              (Get_task (rstrip_slash agent_url) (ids 2)))\<rparr>))"
proof (intro conjI impI)
  show "send_task client agent_url sk params ctx w net =
     (case send_task_attempt client agent_url sk params ctx w net of
        (Inr v, net1) \<Rightarrow> (Inr v, net1)
      | (Inl e1, net1) \<Rightarrow>
          (case send_task_attempt client agent_url sk params ctx w net1 of
             (Inr v, net2) \<Rightarrow> (Inr v, net2)
           | (Inl e2, net2) \<Rightarrow>
               (case send_task_attempt client agent_url sk params ctx w net2 of
                  (Inr v, net3) \<Rightarrow> (Inr v, net3)
                | (Inl e3, net3) \<Rightarrow> (Inl (RetryError e3), net3))))"
    by (rule send_task_unrolled)
next
  show "\<exists>j tid. j \<le> nat (max_poll_attempts client) \<and>
      snd (send_task_attempt client agent_url sk params ctx False net) =
        net\<lparr>sent := sent net @
          Post_tasks (rstrip_slash agent_url) (task_payload sk params ctx) #
          replicate j (Get_task (rstrip_slash agent_url) tid)\<rparr>"
    by (rule attempt_sends_creation)
next
  assume "response_json (script net (length (sent net))) = Inl e"
  then show "send_task_attempt client agent_url sk params ctx False net =
        (Inl e, net\<lparr>sent := sent net @
           [Post_tasks (rstrip_slash agent_url) (task_payload sk params ctx)]\<rparr>)"
    by (rule attempt_creation_failed)
next
  assume a: "response_json (script net (length (sent net))) = Inr result \<and>
    py_subscript result ''task_id'' = Inr tid \<and>
    (\<forall>i < nat (max_poll_attempts client).
       \<not> returns_record (script net (Suc (length (sent net)) + i)))"
  show "send_task_attempt client agent_url sk params ctx False net =
        (Inl (TimeoutError tid),
         net\<lparr>sent := sent net @
           Post_tasks (rstrip_slash agent_url) (task_payload sk params ctx) #
           replicate (nat (max_poll_attempts client))
             (Get_task (rstrip_slash agent_url) tid)\<rparr>)"
  proof (rule attempt_times_out)
    show "response_json (script net (length (sent net))) = Inr result"
      using a by simp
    show "py_subscript result ''task_id'' = Inr tid"
      using a by simp
    show "\<not> returns_record (script net (Suc (length (sent net)) + i))"
      if "i < nat (max_poll_attempts client)" for i
      using a that by simp
  qed
next
  let ?n = "nat (max_poll_attempts client)"
  let ?post = "Post_tasks (rstrip_slash agent_url) (task_payload sk params ctx)"
  let ?round = "\<lambda>k. ?post # replicate ?n (Get_task (rstrip_slash agent_url) (ids k))"
  let ?f = "send_task_attempt client agent_url sk params ctx False"
  assume hyp: "(\<forall>i. \<not> returns_record (script net i)) \<and>
    (\<forall>k < 3. \<exists>r. response_json (script net (length (sent net) + k * Suc ?n)) = Inr r \<and>
                  py_subscript r ''task_id'' = Inr (ids k))"
  have step: "?f (net\<lparr>sent := xs\<rparr>) = (Inl (TimeoutError (ids k)), net\<lparr>sent := xs @ ?round k\<rparr>)"
    if k: "k < 3" and len: "length xs = length (sent net) + k * Suc ?n" for xs k
  proof -
    from hyp k len obtain r where
      r: "response_json (script (net\<lparr>sent := xs\<rparr>) (length (sent (net\<lparr>sent := xs\<rparr>)))) = Inr r"
      and t: "py_subscript r ''task_id'' = Inr (ids k)"
      by auto
    have p: "\<And>i. i < ?n \<Longrightarrow>
               \<not> returns_record (script (net\<lparr>sent := xs\<rparr>)
                                   (Suc (length (sent (net\<lparr>sent := xs\<rparr>))) + i))"
      using hyp by simp
    from attempt_times_out [OF r t p, of client agent_url sk params ctx]
    show ?thesis by simp
  qed
  have s0: "?f net = (Inl (TimeoutError (ids 0)), net\<lparr>sent := sent net @ ?round 0\<rparr>)"
    using step [of 0 "sent net"] by simp
  have s1: "?f (net\<lparr>sent := sent net @ ?round 0\<rparr>) =
              (Inl (TimeoutError (ids 1)), net\<lparr>sent := sent net @ ?round 0 @ ?round 1\<rparr>)"
    using step [of 1 "sent net @ ?round 0"] by simp
  have s2: "?f (net\<lparr>sent := sent net @ ?round 0 @ ?round 1\<rparr>) =
              (Inl (TimeoutError (ids 2)),
               net\<lparr>sent := sent net @ ?round 0 @ ?round 1 @ ?round 2\<rparr>)"
    using step [of 2 "sent net @ ?round 0 @ ?round 1"] by simp
  show "send_task client agent_url sk params ctx False net =
        (Inl (RetryError (TimeoutError (ids 2))),
         net\<lparr>sent := sent net @ ?round 0 @ ?round 1 @ ?round 2\<rparr>)"
    by (simp only: send_task_unrolled s0 s1 s2 prod.case sum.case)
qed

lemma fresh_reply:
  "script fresh_network i =
     Response 200 (Some (PDict [(''task_id'', fresh_ids (i div 2)), (''status'', PStr ''working'')]))"
  by (simp add: fresh_network_def)

lemma fresh_pending: "\<not> returns_record (script fresh_network i)"
  by (simp add: fresh_reply returns_record_def poll_body_record terminal_statuses_def
        dict_get_default_def)

theorem send_task_retries_whole_attempt_witness:
  "send_task impatient_client ''http://agent'' ''echo'' [] None False fresh_network =
     (Inl (RetryError (TimeoutError (PStr ''t3''))),
      fresh_network\<lparr>sent :=
        [Post_tasks ''http://agent'' (task_payload ''echo'' [] None),
         Get_task ''http://agent'' (PStr ''t1''),
         Post_tasks ''http://agent'' (task_payload ''echo'' [] None),
         Get_task ''http://agent'' (PStr ''t2''),
         Post_tasks ''http://agent'' (task_payload ''echo'' [] None),
         Get_task ''http://agent'' (PStr ''t3'')]\<rparr>) \<and>
   send_task_attempt impatient_client ''http://agent'' ''echo'' [] None False fresh_network =
     (Inl (TimeoutError (PStr ''t1'')),
      fresh_network\<lparr>sent :=
        [Post_tasks ''http://agent'' (task_payload ''echo'' [] None),
         Get_task ''http://agent'' (PStr ''t1'')]\<rparr>) \<and>
   send_task_attempt impatient_client ''http://agent'' ''echo'' [] None False recovering_network =
     (Inl (TransportError ''connection refused''),
      recovering_network\<lparr>sent :=
        [Post_tasks ''http://agent'' (task_payload ''echo'' [] None)]\<rparr>) \<and>
   send_task impatient_client ''http://agent'' ''echo'' [] None False recovering_network =
     (Inr completed_record,
      recovering_network\<lparr>sent :=
        [Post_tasks ''http://agent'' (task_payload ''echo'' [] None),
         Post_tasks ''http://agent'' (task_payload ''echo'' [] None),
         Get_task ''http://agent'' (PStr ''t1'')]\<rparr>)"
proof -
  let ?post = "Post_tasks ''http://agent'' (task_payload ''echo'' [] None)"
  let ?a = "send_task_attempt impatient_client ''http://agent'' ''echo'' [] None False"
  have budget: "nat (max_poll_attempts impatient_client) = Suc 0"
    by (simp add: impatient_client_def)
  have url: "rstrip_slash ''http://agent'' = ''http://agent''"
    by (simp add: rstrip_slash_def)
  have empty: "sent fresh_network = []" "sent recovering_network = []"
    by (simp_all add: fresh_network_def recovering_network_def)
  note fresh = send_task_retries_whole_attempt
                 [where client = impatient_client and agent_url = "''http://agent''"
                    and sk = "''echo''" and params = "[]" and ctx = None and w = False
                    and net = fresh_network and ids = fresh_ids
                    and result = "PDict [(''task_id'', PStr ''t1''), (''status'', PStr ''working'')]"
                    and tid = "PStr ''t1''"]
  note recovering = send_task_retries_whole_attempt
                 [where client = impatient_client and agent_url = "''http://agent''"
                    and sk = "''echo''" and params = "[]" and ctx = None and w = False
                    and net = recovering_network
                    and e = "TransportError ''connection refused''"]
  have pending: "\<forall>i. \<not> returns_record (script fresh_network i)"
    by (simp add: fresh_pending)
  have created: "\<forall>k < 3. \<exists>r. response_json
                     (script fresh_network
                        (length (sent fresh_network) + k * Suc (nat (max_poll_attempts impatient_client))))
                    = Inr r \<and>
                  py_subscript r ''task_id'' = Inr (fresh_ids k)"
    by (simp add: fresh_reply response_json_def py_subscript_def dict_get_def budget empty)
  have first: "response_json (script fresh_network (length (sent fresh_network))) =
                 Inr (PDict [(''task_id'', PStr ''t1''), (''status'', PStr ''working'')]) \<and>
               py_subscript (PDict [(''task_id'', PStr ''t1''), (''status'', PStr ''working'')])
                 ''task_id'' = Inr (PStr ''t1'') \<and>
               (\<forall>i < nat (max_poll_attempts impatient_client).
                  \<not> returns_record (script fresh_network (Suc (length (sent fresh_network)) + i)))"
  proof (intro conjI)
    show "response_json (script fresh_network (length (sent fresh_network))) =
            Inr (PDict [(''task_id'', PStr ''t1''), (''status'', PStr ''working'')])"
      by (simp add: fresh_reply response_json_def fresh_ids_def empty)
    show "py_subscript (PDict [(''task_id'', PStr ''t1''), (''status'', PStr ''working'')])
            ''task_id'' = Inr (PStr ''t1'')"
      by (simp add: py_subscript_def dict_get_def)
    show "\<forall>i < nat (max_poll_attempts impatient_client).
            \<not> returns_record (script fresh_network (Suc (length (sent fresh_network)) + i))"
      using fresh_pending by blast
  qed
  have refused: "response_json (script recovering_network (length (sent recovering_network))) =
                   Inl (TransportError ''connection refused'')"
    by (simp add: recovering_network_def response_json_def)
  note whole = fresh [THEN conjunct2, THEN conjunct2, THEN conjunct2, THEN conjunct2]
  note timed = fresh [THEN conjunct2, THEN conjunct2, THEN conjunct2, THEN conjunct1]
  note failed = recovering [THEN conjunct2, THEN conjunct2, THEN conjunct1]
  note shape = recovering [THEN conjunct1]
  have "send_task impatient_client ''http://agent'' ''echo'' [] None False fresh_network =
     (Inl (RetryError (TimeoutError (fresh_ids 2))),
      fresh_network\<lparr>sent := sent fresh_network @
        (Post_tasks (rstrip_slash ''http://agent'') (task_payload ''echo'' [] None) #
         replicate (nat (max_poll_attempts impatient_client))
           (Get_task (rstrip_slash ''http://agent'') (fresh_ids 0))) @
        (Post_tasks (rstrip_slash ''http://agent'') (task_payload ''echo'' [] None) #
         replicate (nat (max_poll_attempts impatient_client))
           (Get_task (rstrip_slash ''http://agent'') (fresh_ids 1))) @
        (Post_tasks (rstrip_slash ''http://agent'') (task_payload ''echo'' [] None) #
         replicate (nat (max_poll_attempts impatient_client))
           (Get_task (rstrip_slash ''http://agent'') (fresh_ids 2)))\<rparr>)"
    using whole pending created by blast
  then have a: "send_task impatient_client ''http://agent'' ''echo'' [] None False fresh_network =
     (Inl (RetryError (TimeoutError (PStr ''t3''))),
      fresh_network\<lparr>sent :=
        [?post, Get_task ''http://agent'' (PStr ''t1''),
         ?post, Get_task ''http://agent'' (PStr ''t2''),
         ?post, Get_task ''http://agent'' (PStr ''t3'')]\<rparr>)"
    by (simp add: budget url empty fresh_ids_def)
  have "?a fresh_network =
     (Inl (TimeoutError (PStr ''t1'')),
      fresh_network\<lparr>sent := sent fresh_network @
        Post_tasks (rstrip_slash ''http://agent'') (task_payload ''echo'' [] None) #
        replicate (nat (max_poll_attempts impatient_client))
          (Get_task (rstrip_slash ''http://agent'') (PStr ''t1''))\<rparr>)"
    using timed first by blast
  then have b: "?a fresh_network =
     (Inl (TimeoutError (PStr ''t1'')),
      fresh_network\<lparr>sent := [?post, Get_task ''http://agent'' (PStr ''t1'')]\<rparr>)"
    by (simp add: budget url empty)
  have "?a recovering_network =
     (Inl (TransportError ''connection refused''),
      recovering_network\<lparr>sent := sent recovering_network @
        [Post_tasks (rstrip_slash ''http://agent'') (task_payload ''echo'' [] None)]\<rparr>)"
    using failed refused by blast
  then have c: "?a recovering_network =
     (Inl (TransportError ''connection refused''), recovering_network\<lparr>sent := [?post]\<rparr>)"
    by (simp add: url empty)
  have second: "?a (recovering_network\<lparr>sent := [?post]\<rparr>) =
     (Inr completed_record,
      recovering_network\<lparr>sent := [?post, ?post, Get_task ''http://agent'' (PStr ''t1'')]\<rparr>)"
    by (simp add: send_task_attempt_def http_call_eq response_json_def py_subscript_def
          dict_get_def poll_task_def poll_body_def py_get_def dict_get_default_def
          terminal_statuses_def url budget Let_def recovering_network_def working_record_def
          completed_record_def)
  have d: "send_task impatient_client ''http://agent'' ''echo'' [] None False recovering_network =
     (Inr completed_record,
      recovering_network\<lparr>sent := [?post, ?post, Get_task ''http://agent'' (PStr ''t1'')]\<rparr>)"
    by (simp only: shape c second prod.case sum.case)
  from a b c d show ?thesis by blast
qed

section \<open>Properties of the coordinator\<close>

lemmas coordinator_defs =
  handle_answer_question_def answer_steps_def planning_step_def discovery_step_def
  sql_step_def synthesis_step_def steps_append_def agent_results_put_def call_agent_def
  py_get_def dict_get_def dict_get_default_def mk_artifact_def Let_def

lemmas coordinator_example_defs =
  discovery_only_def discovery_endpoint_def discovery_sender_def empty_sender_def
  two_step_planner_def fixed_synthesizer_def shown_def sales_question_def tables_found_def
  sql_endpoint_def sql_only_def no_agents_def sql_found_def sql_sender_def

lemma parse_two_skills:
  "parse_required_skills ''discover-tables, text-to-sql'' = [''discover-tables'', ''text-to-sql'']"
  by (simp add: parse_required_skills_def strip_def is_space_def)

text \<open>
  C6. Claimed: a step that names an unregistered agent is recorded as a routing error on
  that step's result. With the plan \<open>discover-tables, text-to-sql\<close> and only the
  discovery agent registered, the result holds the discovery step and the synthesis,
  and nothing at all about the second step: no error entry, no step entry, no agent
  result.
\<close>

theorem unregistered_agent_counterexample:
  "discovery_only ''sql_generation'' = None \<and>
   parse_required_skills ''discover-tables, text-to-sql'' = [''discover-tables'', ''text-to-sql''] \<and>
   handle_answer_question discovery_only discovery_sender two_step_planner fixed_synthesizer
       shown sales_question None =
     Returns (HList
       [Is_artifact \<lparr>artifact_type = ''json'',
         content = PDict
           [(''question'', PStr ''Why are sales declining?''),
            (''steps'',
               PList [PDict [(''step'', PStr ''planning''),
                             (''result'', PStr ''Created analysis plan'')],
                      PDict [(''step'', PStr ''data_discovery''),
                             (''tables'', PList [PStr ''sales''])]]),
            (''agent_results'',
               PDict [(''data_discovery'', PDict [(''tables'', PList [PStr ''sales''])])]),
            (''plan'', PStr ''1. find tables 2. query''),
            (''answer'', PStr ''Sales fell''),
            (''recommendations'', PStr ''Restock''),
            (''confidence'', PStr ''medium'')],
         metadata = []\<rparr>])"
  by (simp add: parse_two_skills coordinator_defs coordinator_example_defs call_agent_reply_def)


lemma skipped_discovery:
  "agents ''data_discovery'' = None \<Longrightarrow>
     discovery_step agents send required question results = Inr results"
  by (simp add: discovery_step_def)

lemma skipped_sql:
  "agents ''sql_generation'' = None \<Longrightarrow>
     sql_step agents send required question results = Inr results"
  by (simp add: sql_step_def)

lemma handle_of_steps:
  "dict_get_default params ''question'' (PStr []) = PStr q \<Longrightarrow> q \<noteq> [] \<Longrightarrow>
   answer_steps agents send plan synth to_str (PStr q)
     [(''question'', PStr q), (''steps'', PList []), (''agent_results'', PDict [])] = Inr results \<Longrightarrow>
     handle_answer_question agents send plan synth to_str params ctx =
       Returns (HList [Is_artifact \<lparr>artifact_type = ''json'', content = PDict results,
                                    metadata = []\<rparr>])"
  by (simp add: handle_answer_question_def mk_artifact_def)

lemma planning_done:
  "plan (PStr q) = Inr (task_plan, req) \<Longrightarrow>
     planning_step plan (PStr q)
       [(''question'', PStr q), (''steps'', PList []), (''agent_results'', PDict [])] =
     Inr ([(''question'', PStr q),
           (''steps'', PList [PDict [(''step'', PStr ''planning''),
                                     (''result'', PStr ''Created analysis plan'')]]),
           (''agent_results'', PDict []),
           (''plan'', PStr task_plan)],
          parse_required_skills req)"
  by (simp add: planning_step_def steps_append_def dict_get_def)

text \<open>
  C6, as the code has it. Each of the two agent steps is guarded by the registration of
  its agent. A step whose agent is not registered is skipped: the results are left as
  they were, nothing is recorded for it, and the run goes on as the run without that
  step. \<open>_call_agent\<close> itself raises \<open>ValueError\<close> for an unregistered name and is
  not called for one. End to end: with only the discovery agent registered and
  answering, the result holds the planning and discovery steps and the synthesis of the
  discovery result; with only the query agent registered and answering, the planning
  and query steps and the synthesis of the query result; with neither, the planning
  step and the synthesis of no results. No result has an error entry.
\<close>

theorem unregistered_agent_step_skipped:
  "(agents ''data_discovery'' = None \<longrightarrow>
      discovery_step agents send required question results = Inr results \<and>
      answer_steps agents send plan synth to_str question results =
        (case planning_step plan question results of
           Inl x \<Rightarrow> Inl x
         | Inr (results1, planned) \<Rightarrow>
             (case sql_step agents send planned question results1 of
                Inl x \<Rightarrow> Inl x
              | Inr results3 \<Rightarrow> synthesis_step synth to_str question results3))) \<and>
   (agents ''sql_generation'' = None \<longrightarrow>
      sql_step agents send required question results = Inr results \<and>
      answer_steps agents send plan synth to_str question results =
        (case planning_step plan question results of
           Inl x \<Rightarrow> Inl x
         | Inr (results1, planned) \<Rightarrow>
             (case discovery_step agents send planned question results1 of
                Inl x \<Rightarrow> Inl x
              | Inr results2 \<Rightarrow> synthesis_step synth to_str question results2))) \<and>
   (agents agent_name = None \<longrightarrow>
      call_agent agents send agent_name sk ps = Inl (ValueError (''Unknown agent: '' @ agent_name))) \<and>
   (agents ''sql_generation'' = None \<and>
    dict_get_default params ''question'' (PStr []) = PStr q \<and> q \<noteq> [] \<and>
    plan (PStr q) = Inr (task_plan, req) \<and>
    ''discover-tables'' \<in> set (parse_required_skills req) \<and>
    agents ''data_discovery'' = Some ep \<and>
    send (endpoint_url ep) ''discover-tables'' [(''question'', PStr q)] = Inr reply \<and>
    call_agent_reply reply = Inr (PDict found) \<and>
    synth (PStr q) (to_str (PDict [(''data_discovery'', PDict found)]))
      = Inr (answer, recommendations, confidence) \<longrightarrow>
      handle_answer_question agents send plan synth to_str params ctx =
        Returns (HList
          [Is_artifact \<lparr>artifact_type = ''json'',
            content = PDict
              [(''question'', PStr q),
               (''steps'',
                  PList [PDict [(''step'', PStr ''planning''),
                                (''result'', PStr ''Created analysis plan'')],
                         PDict [(''step'', PStr ''data_discovery''),
                                (''tables'', dict_get_default found ''tables'' (PList []))]]),
               (''agent_results'', PDict [(''data_discovery'', PDict found)]),
               (''plan'', PStr task_plan),
               (''answer'', PStr answer),
               (''recommendations'', PStr recommendations),
               (''confidence'', PStr confidence)],
            metadata = []\<rparr>])) \<and>
   (agents ''data_discovery'' = None \<and>
    dict_get_default params ''question'' (PStr []) = PStr q \<and> q \<noteq> [] \<and>
    plan (PStr q) = Inr (task_plan, req) \<and>
    ''text-to-sql'' \<in> set (parse_required_skills req) \<and>
    agents ''sql_generation'' = Some ep \<and>
    send (endpoint_url ep) ''text-to-sql''
      [(''requirement'', PStr q), (''tables'', PList []), (''execute'', PBool True)] = Inr reply \<and>
    call_agent_reply reply = Inr (PDict found) \<and>
    synth (PStr q) (to_str (PDict [(''sql_generation'', PDict found)]))
      = Inr (answer, recommendations, confidence) \<longrightarrow>
      handle_answer_question agents send plan synth to_str params ctx =
        Returns (HList
          [Is_artifact \<lparr>artifact_type = ''json'',
            content = PDict
              [(''question'', PStr q),
               (''steps'',
                  PList [PDict [(''step'', PStr ''planning''),
                                (''result'', PStr ''Created analysis plan'')],
                         PDict [(''step'', PStr ''sql_generation''),
                                (''sql'', dict_get_default found ''sql'' (PStr [])),
                                (''row_count'', dict_get_default found ''row_count'' (PInt 0))]]),
               (''agent_results'', PDict [(''sql_generation'', PDict found)]),
               (''plan'', PStr task_plan),
               (''answer'', PStr answer),
               (''recommendations'', PStr recommendations),
               (''confidence'', PStr confidence)],
            metadata = []\<rparr>])) \<and>
   (agents ''data_discovery'' = None \<and> agents ''sql_generation'' = None \<and>
    dict_get_default params ''question'' (PStr []) = PStr q \<and> q \<noteq> [] \<and>
    plan (PStr q) = Inr (task_plan, req) \<and>
    synth (PStr q) (to_str (PDict [])) = Inr (answer, recommendations, confidence) \<longrightarrow>
      handle_answer_question agents send plan synth to_str params ctx =
        Returns (HList
          [Is_artifact \<lparr>artifact_type = ''json'',
            content = PDict
              [(''question'', PStr q),
               (''steps'',
                  PList [PDict [(''step'', PStr ''planning''),
                                (''result'', PStr ''Created analysis plan'')]]),
               (''agent_results'', PDict []),
               (''plan'', PStr task_plan),
               (''answer'', PStr answer),
               (''recommendations'', PStr recommendations),
               (''confidence'', PStr confidence)],
            metadata = []\<rparr>]))"
proof (intro conjI impI)
  assume "agents ''data_discovery'' = None"
  then show "discovery_step agents send required question results = Inr results"
    by (rule skipped_discovery)
next
  assume "agents ''data_discovery'' = None"
  then show "answer_steps agents send plan synth to_str question results =
        (case planning_step plan question results of
           Inl x \<Rightarrow> Inl x
         | Inr (results1, planned) \<Rightarrow>
             (case sql_step agents send planned question results1 of
                Inl x \<Rightarrow> Inl x
              | Inr results3 \<Rightarrow> synthesis_step synth to_str question results3))"
    by (simp add: answer_steps_def skipped_discovery split: sum.splits prod.splits)
next
  assume "agents ''sql_generation'' = None"
  then show "sql_step agents send required question results = Inr results"
    by (rule skipped_sql)
next
  assume "agents ''sql_generation'' = None"
  then show "answer_steps agents send plan synth to_str question results =
        (case planning_step plan question results of
           Inl x \<Rightarrow> Inl x
         | Inr (results1, planned) \<Rightarrow>
             (case discovery_step agents send planned question results1 of
                Inl x \<Rightarrow> Inl x
              | Inr results2 \<Rightarrow> synthesis_step synth to_str question results2))"
    by (simp add: answer_steps_def skipped_sql split: sum.splits prod.splits)
next
  assume "agents agent_name = None"
  then show "call_agent agents send agent_name sk ps =
               Inl (ValueError (''Unknown agent: '' @ agent_name))"
    by (simp add: call_agent_def)
next
  assume run: "agents ''sql_generation'' = None \<and>
    dict_get_default params ''question'' (PStr []) = PStr q \<and> q \<noteq> [] \<and>
    plan (PStr q) = Inr (task_plan, req) \<and>
    ''discover-tables'' \<in> set (parse_required_skills req) \<and>
    agents ''data_discovery'' = Some ep \<and>
    send (endpoint_url ep) ''discover-tables'' [(''question'', PStr q)] = Inr reply \<and>
    call_agent_reply reply = Inr (PDict found) \<and>
    synth (PStr q) (to_str (PDict [(''data_discovery'', PDict found)]))
      = Inr (answer, recommendations, confidence)"
  let ?r0 = "[(''question'', PStr q), (''steps'', PList []), (''agent_results'', PDict [])]"
  let ?planning = "PDict [(''step'', PStr ''planning''), (''result'', PStr ''Created analysis plan'')]"
  let ?r1 = "[(''question'', PStr q), (''steps'', PList [?planning]),
              (''agent_results'', PDict []), (''plan'', PStr task_plan)]"
  let ?r2 = "[(''question'', PStr q),
              (''steps'', PList [?planning,
                 PDict [(''step'', PStr ''data_discovery''),
                        (''tables'', dict_get_default found ''tables'' (PList []))]]),
              (''agent_results'', PDict [(''data_discovery'', PDict found)]),
              (''plan'', PStr task_plan)]"
  let ?r4 = "?r2 @ [(''answer'', PStr answer), (''recommendations'', PStr recommendations),
                    (''confidence'', PStr confidence)]"
  have p: "planning_step plan (PStr q) ?r0 = Inr (?r1, parse_required_skills req)"
    using run by (simp add: planning_done)
  have c: "call_agent agents send ''data_discovery'' ''discover-tables'' [(''question'', PStr q)]
             = Inr (PDict found)"
    using run by (simp add: call_agent_def)
  have d: "discovery_step agents send (parse_required_skills req) (PStr q) ?r1 = Inr ?r2"
    using run c
    by (simp add: discovery_step_def agent_results_put_def steps_append_def dict_get_def
          py_get_def Let_def)
  have s: "sql_step agents send (parse_required_skills req) (PStr q) ?r2 = Inr ?r2"
    using run by (simp add: skipped_sql)
  have y: "synthesis_step synth to_str (PStr q) ?r2 = Inr ?r4"
    using run by (simp add: synthesis_step_def dict_get_default_def)
  have "answer_steps agents send plan synth to_str (PStr q) ?r0 = Inr ?r4"
    by (simp add: answer_steps_def p d s y)
  from handle_of_steps [OF _ _ this, of params ctx] run
  show "handle_answer_question agents send plan synth to_str params ctx =
        Returns (HList
          [Is_artifact \<lparr>artifact_type = ''json'',
            content = PDict
              [(''question'', PStr q),
               (''steps'',
                  PList [PDict [(''step'', PStr ''planning''),
                                (''result'', PStr ''Created analysis plan'')],
                         PDict [(''step'', PStr ''data_discovery''),
                                (''tables'', dict_get_default found ''tables'' (PList []))]]),
               (''agent_results'', PDict [(''data_discovery'', PDict found)]),
               (''plan'', PStr task_plan),
               (''answer'', PStr answer),
               (''recommendations'', PStr recommendations),
               (''confidence'', PStr confidence)],
            metadata = []\<rparr>])"
    by simp
next
  assume run: "agents ''data_discovery'' = None \<and>
    dict_get_default params ''question'' (PStr []) = PStr q \<and> q \<noteq> [] \<and>
    plan (PStr q) = Inr (task_plan, req) \<and>
    ''text-to-sql'' \<in> set (parse_required_skills req) \<and>
    agents ''sql_generation'' = Some ep \<and>
    send (endpoint_url ep) ''text-to-sql''
      [(''requirement'', PStr q), (''tables'', PList []), (''execute'', PBool True)] = Inr reply \<and>
    call_agent_reply reply = Inr (PDict found) \<and>
    synth (PStr q) (to_str (PDict [(''sql_generation'', PDict found)]))
      = Inr (answer, recommendations, confidence)"
  let ?r0 = "[(''question'', PStr q), (''steps'', PList []), (''agent_results'', PDict [])]"
  let ?planning = "PDict [(''step'', PStr ''planning''), (''result'', PStr ''Created analysis plan'')]"
  let ?r1 = "[(''question'', PStr q), (''steps'', PList [?planning]),
              (''agent_results'', PDict []), (''plan'', PStr task_plan)]"
  let ?r3 = "[(''question'', PStr q),
              (''steps'', PList [?planning,
                 PDict [(''step'', PStr ''sql_generation''),
                        (''sql'', dict_get_default found ''sql'' (PStr [])),
                        (''row_count'', dict_get_default found ''row_count'' (PInt 0))]]),
              (''agent_results'', PDict [(''sql_generation'', PDict found)]),
              (''plan'', PStr task_plan)]"
  let ?r4 = "?r3 @ [(''answer'', PStr answer), (''recommendations'', PStr recommendations),
                    (''confidence'', PStr confidence)]"
  have p: "planning_step plan (PStr q) ?r0 = Inr (?r1, parse_required_skills req)"
    using run by (simp add: planning_done)
  have d: "discovery_step agents send (parse_required_skills req) (PStr q) ?r1 = Inr ?r1"
    using run by (simp add: skipped_discovery)
  have c: "call_agent agents send ''sql_generation'' ''text-to-sql''
             [(''requirement'', PStr q), (''tables'', PList []), (''execute'', PBool True)]
             = Inr (PDict found)"
    using run by (simp add: call_agent_def)
  have s: "sql_step agents send (parse_required_skills req) (PStr q) ?r1 = Inr ?r3"
    using run c
    by (simp add: sql_step_def agent_results_put_def steps_append_def dict_get_def
          dict_get_default_def py_get_def Let_def)
  have y: "synthesis_step synth to_str (PStr q) ?r3 = Inr ?r4"
    using run by (simp add: synthesis_step_def dict_get_default_def)
  have "answer_steps agents send plan synth to_str (PStr q) ?r0 = Inr ?r4"
    by (simp add: answer_steps_def p d s y)
  from handle_of_steps [OF _ _ this, of params ctx] run
  show "handle_answer_question agents send plan synth to_str params ctx =
        Returns (HList
          [Is_artifact \<lparr>artifact_type = ''json'',
            content = PDict
              [(''question'', PStr q),
               (''steps'',
                  PList [PDict [(''step'', PStr ''planning''),
                                (''result'', PStr ''Created analysis plan'')],
                         PDict [(''step'', PStr ''sql_generation''),
                                (''sql'', dict_get_default found ''sql'' (PStr [])),
                                (''row_count'', dict_get_default found ''row_count'' (PInt 0))]]),
               (''agent_results'', PDict [(''sql_generation'', PDict found)]),
               (''plan'', PStr task_plan),
               (''answer'', PStr answer),
               (''recommendations'', PStr recommendations),
               (''confidence'', PStr confidence)],
            metadata = []\<rparr>])"
    by simp
next
  assume run: "agents ''data_discovery'' = None \<and> agents ''sql_generation'' = None \<and>
    dict_get_default params ''question'' (PStr []) = PStr q \<and> q \<noteq> [] \<and>
    plan (PStr q) = Inr (task_plan, req) \<and>
    synth (PStr q) (to_str (PDict [])) = Inr (answer, recommendations, confidence)"
  let ?r0 = "[(''question'', PStr q), (''steps'', PList []), (''agent_results'', PDict [])]"
  let ?planning = "PDict [(''step'', PStr ''planning''), (''result'', PStr ''Created analysis plan'')]"
  let ?r1 = "[(''question'', PStr q), (''steps'', PList [?planning]),
              (''agent_results'', PDict []), (''plan'', PStr task_plan)]"
  let ?r4 = "?r1 @ [(''answer'', PStr answer), (''recommendations'', PStr recommendations),
                    (''confidence'', PStr confidence)]"
  have p: "planning_step plan (PStr q) ?r0 = Inr (?r1, parse_required_skills req)"
    using run by (simp add: planning_done)
  have d: "discovery_step agents send (parse_required_skills req) (PStr q) ?r1 = Inr ?r1"
    using run by (simp add: skipped_discovery)
  have s: "sql_step agents send (parse_required_skills req) (PStr q) ?r1 = Inr ?r1"
    using run by (simp add: skipped_sql)
  have y: "synthesis_step synth to_str (PStr q) ?r1 = Inr ?r4"
    using run by (simp add: synthesis_step_def dict_get_default_def)
  have "answer_steps agents send plan synth to_str (PStr q) ?r0 = Inr ?r4"
    by (simp add: answer_steps_def p d s y)
  from handle_of_steps [OF _ _ this, of params ctx] run
  show "handle_answer_question agents send plan synth to_str params ctx =
        Returns (HList
          [Is_artifact \<lparr>artifact_type = ''json'',
            content = PDict
              [(''question'', PStr q),
               (''steps'',
                  PList [PDict [(''step'', PStr ''planning''),
                                (''result'', PStr ''Created analysis plan'')]]),
               (''agent_results'', PDict []),
               (''plan'', PStr task_plan),
               (''answer'', PStr answer),
               (''recommendations'', PStr recommendations),
               (''confidence'', PStr confidence)],
            metadata = []\<rparr>])"
    by simp
qed

theorem unregistered_agent_step_skipped_witness:
  "discovery_step sql_only sql_sender [''discover-tables'', ''text-to-sql'']
       (PStr ''Why are sales declining?'') [(''agent_results'', PDict [])]
     = Inr [(''agent_results'', PDict [])] \<and>
   sql_step discovery_only discovery_sender [''discover-tables'', ''text-to-sql'']
       (PStr ''Why are sales declining?'') [(''agent_results'', PDict [])]
     = Inr [(''agent_results'', PDict [])] \<and>
   call_agent no_agents discovery_sender ''data_discovery'' ''discover-tables'' [] =
     Inl (ValueError ''Unknown agent: data_discovery'') \<and>
   handle_answer_question discovery_only discovery_sender two_step_planner fixed_synthesizer
       shown sales_question None =
     Returns (HList
       [Is_artifact \<lparr>artifact_type = ''json'',
         content = PDict
           [(''question'', PStr ''Why are sales declining?''),
            (''steps'',
               PList [PDict [(''step'', PStr ''planning''),
                             (''result'', PStr ''Created analysis plan'')],
                      PDict [(''step'', PStr ''data_discovery''),
                             (''tables'', PList [PStr ''sales''])]]),
            (''agent_results'', PDict [(''data_discovery'', PDict tables_found)]),
            (''plan'', PStr ''1. find tables 2. query''),
            (''answer'', PStr ''Sales fell''),
            (''recommendations'', PStr ''Restock''),
            (''confidence'', PStr ''medium'')],
         metadata = []\<rparr>]) \<and>
   handle_answer_question sql_only sql_sender two_step_planner fixed_synthesizer
       shown sales_question None =
     Returns (HList
       [Is_artifact \<lparr>artifact_type = ''json'',
         content = PDict
           [(''question'', PStr ''Why are sales declining?''),
            (''steps'',
               PList [PDict [(''step'', PStr ''planning''),
                             (''result'', PStr ''Created analysis plan'')],
                      PDict [(''step'', PStr ''sql_generation''),
                             (''sql'', PStr ''SELECT 1''),
                             (''row_count'', PInt 1)]]),
            (''agent_results'', PDict [(''sql_generation'', PDict sql_found)]),
            (''plan'', PStr ''1. find tables 2. query''),
            (''answer'', PStr ''Sales fell''),
            (''recommendations'', PStr ''Restock''),
            (''confidence'', PStr ''medium'')],
         metadata = []\<rparr>]) \<and>
   handle_answer_question no_agents discovery_sender two_step_planner fixed_synthesizer
       shown sales_question None =
     Returns (HList
       [Is_artifact \<lparr>artifact_type = ''json'',
         content = PDict
           [(''question'', PStr ''Why are sales declining?''),
            (''steps'',
               PList [PDict [(''step'', PStr ''planning''),
                             (''result'', PStr ''Created analysis plan'')]]),
            (''agent_results'', PDict []),
            (''plan'', PStr ''1. find tables 2. query''),
            (''answer'', PStr ''Sales fell''),
            (''recommendations'', PStr ''Restock''),
            (''confidence'', PStr ''medium'')],
         metadata = []\<rparr>])"
proof -
  let ?q = "''Why are sales declining?''"
  let ?plan = "''1. find tables 2. query''"
  let ?req = "''discover-tables, text-to-sql''"
  let ?found_reply = "PDict [(''task_id'', PStr ''t1''),
                     (''status'', PStr ''completed''),
                     (''artifacts'',
                        PList [PDict [(''type'', PStr ''json''),
                                      (''content'', PDict tables_found),
                                      (''metadata'', PDict [])]]),
                     (''error'', PNone)]"
  let ?sql_reply = "PDict [(''task_id'', PStr ''t3''),
                     (''status'', PStr ''completed''),
                     (''artifacts'',
                        PList [PDict [(''type'', PStr ''json''),
                                      (''content'', PDict sql_found),
                                      (''metadata'', PDict [])]]),
                     (''error'', PNone)]"
  have common:
    "dict_get_default sales_question ''question'' (PStr []) = PStr ?q \<and> ?q \<noteq> [] \<and>
     two_step_planner (PStr ?q) = Inr (?plan, ?req)"
    by (simp add: sales_question_def two_step_planner_def dict_get_default_def)
  have planned:
    "''discover-tables'' \<in> set (parse_required_skills ?req) \<and>
     ''text-to-sql'' \<in> set (parse_required_skills ?req)"
    by (simp add: parse_two_skills)
  have only_discovery:
    "discovery_only ''sql_generation'' = None \<and>
     discovery_only ''data_discovery'' = Some discovery_endpoint \<and>
     discovery_sender (endpoint_url discovery_endpoint) ''discover-tables''
       [(''question'', PStr ?q)] = Inr ?found_reply \<and>
     call_agent_reply ?found_reply = Inr (PDict tables_found) \<and>
     fixed_synthesizer (PStr ?q) (shown (PDict [(''data_discovery'', PDict tables_found)]))
       = Inr (''Sales fell'', ''Restock'', ''medium'')"
    by (simp add: discovery_only_def discovery_sender_def fixed_synthesizer_def
          call_agent_reply_def py_get_def dict_get_default_def)
  have only_sql:
    "sql_only ''data_discovery'' = None \<and>
     sql_only ''sql_generation'' = Some sql_endpoint \<and>
     sql_sender (endpoint_url sql_endpoint) ''text-to-sql''
       [(''requirement'', PStr ?q), (''tables'', PList []), (''execute'', PBool True)]
       = Inr ?sql_reply \<and>
     call_agent_reply ?sql_reply = Inr (PDict sql_found) \<and>
     fixed_synthesizer (PStr ?q) (shown (PDict [(''sql_generation'', PDict sql_found)]))
       = Inr (''Sales fell'', ''Restock'', ''medium'')"
    by (simp add: sql_only_def sql_sender_def fixed_synthesizer_def
          call_agent_reply_def py_get_def dict_get_default_def)
  have neither:
    "no_agents ''data_discovery'' = None \<and> no_agents ''sql_generation'' = None \<and>
     fixed_synthesizer (PStr ?q) (shown (PDict [])) = Inr (''Sales fell'', ''Restock'', ''medium'')"
    by (simp add: no_agents_def fixed_synthesizer_def)
  note t1 = unregistered_agent_step_skipped
              [where agents = discovery_only and send = discovery_sender
                 and required = "[''discover-tables'', ''text-to-sql'']"
                 and question = "PStr ?q" and results = "[(''agent_results'', PDict [])]"
                 and params = sales_question and q = ?q and plan = two_step_planner
                 and task_plan = ?plan and req = ?req and ep = discovery_endpoint
                 and reply = ?found_reply and found = tables_found
                 and synth = fixed_synthesizer and to_str = shown
                 and answer = "''Sales fell''" and recommendations = "''Restock''"
                 and confidence = "''medium''" and ctx = None]
  note t2 = unregistered_agent_step_skipped
              [where agents = sql_only and send = sql_sender
                 and required = "[''discover-tables'', ''text-to-sql'']"
                 and question = "PStr ?q" and results = "[(''agent_results'', PDict [])]"
                 and params = sales_question and q = ?q and plan = two_step_planner
                 and task_plan = ?plan and req = ?req and ep = sql_endpoint
                 and reply = ?sql_reply and found = sql_found
                 and synth = fixed_synthesizer and to_str = shown
                 and answer = "''Sales fell''" and recommendations = "''Restock''"
                 and confidence = "''medium''" and ctx = None]
  note t3 = unregistered_agent_step_skipped
              [where agents = no_agents and send = discovery_sender
                 and agent_name = "''data_discovery''" and sk = "''discover-tables''" and ps = "[]"
                 and params = sales_question and q = ?q and plan = two_step_planner
                 and task_plan = ?plan and req = ?req
                 and synth = fixed_synthesizer and to_str = shown
                 and answer = "''Sales fell''" and recommendations = "''Restock''"
                 and confidence = "''medium''" and ctx = None]
  have a: "discovery_step sql_only sql_sender [''discover-tables'', ''text-to-sql'']
             (PStr ?q) [(''agent_results'', PDict [])] = Inr [(''agent_results'', PDict [])]"
    by (rule t2 [THEN conjunct1, THEN mp, THEN conjunct1]) (simp add: only_sql)
  have b: "sql_step discovery_only discovery_sender [''discover-tables'', ''text-to-sql'']
             (PStr ?q) [(''agent_results'', PDict [])] = Inr [(''agent_results'', PDict [])]"
    by (rule t1 [THEN conjunct2, THEN conjunct1, THEN mp, THEN conjunct1])
       (simp add: only_discovery)
  have "call_agent no_agents discovery_sender ''data_discovery'' ''discover-tables'' [] =
          Inl (ValueError (''Unknown agent: '' @ ''data_discovery''))"
    by (rule t3 [THEN conjunct2, THEN conjunct2, THEN conjunct1, THEN mp])
       (simp add: neither)
  then have c: "call_agent no_agents discovery_sender ''data_discovery'' ''discover-tables'' [] =
                  Inl (ValueError ''Unknown agent: data_discovery'')"
    by simp
  have d': "handle_answer_question discovery_only discovery_sender two_step_planner
              fixed_synthesizer shown sales_question None =
     Returns (HList
       [Is_artifact \<lparr>artifact_type = ''json'',
         content = PDict
           [(''question'', PStr ?q),
            (''steps'',
               PList [PDict [(''step'', PStr ''planning''),
                             (''result'', PStr ''Created analysis plan'')],
                      PDict [(''step'', PStr ''data_discovery''),
                             (''tables'', dict_get_default tables_found ''tables'' (PList []))]]),
            (''agent_results'', PDict [(''data_discovery'', PDict tables_found)]),
            (''plan'', PStr ?plan),
            (''answer'', PStr ''Sales fell''),
            (''recommendations'', PStr ''Restock''),
            (''confidence'', PStr ''medium'')],
         metadata = []\<rparr>])"
    by (rule t1 [THEN conjunct2, THEN conjunct2, THEN conjunct2, THEN conjunct1, THEN mp])
       (simp add: common planned only_discovery)
  have e': "handle_answer_question sql_only sql_sender two_step_planner
              fixed_synthesizer shown sales_question None =
     Returns (HList
       [Is_artifact \<lparr>artifact_type = ''json'',
         content = PDict
           [(''question'', PStr ?q),
            (''steps'',
               PList [PDict [(''step'', PStr ''planning''),
                             (''result'', PStr ''Created analysis plan'')],
                      PDict [(''step'', PStr ''sql_generation''),
                             (''sql'', dict_get_default sql_found ''sql'' (PStr [])),
                             (''row_count'', dict_get_default sql_found ''row_count'' (PInt 0))]]),
            (''agent_results'', PDict [(''sql_generation'', PDict sql_found)]),
            (''plan'', PStr ?plan),
            (''answer'', PStr ''Sales fell''),
            (''recommendations'', PStr ''Restock''),
            (''confidence'', PStr ''medium'')],
         metadata = []\<rparr>])"
    by (rule t2 [THEN conjunct2, THEN conjunct2, THEN conjunct2, THEN conjunct2,
                 THEN conjunct1, THEN mp])
       (simp add: common planned only_sql)
  have f: "handle_answer_question no_agents discovery_sender two_step_planner
              fixed_synthesizer shown sales_question None =
     Returns (HList
       [Is_artifact \<lparr>artifact_type = ''json'',
         content = PDict
           [(''question'', PStr ?q),
            (''steps'',
               PList [PDict [(''step'', PStr ''planning''),
                             (''result'', PStr ''Created analysis plan'')]]),
            (''agent_results'', PDict []),
            (''plan'', PStr ?plan),
            (''answer'', PStr ''Sales fell''),
            (''recommendations'', PStr ''Restock''),
            (''confidence'', PStr ''medium'')],
         metadata = []\<rparr>])"
    by (rule t3 [THEN conjunct2, THEN conjunct2, THEN conjunct2, THEN conjunct2,
                 THEN conjunct2, THEN mp])
       (simp add: common neither)
  have d'': "dict_get_default tables_found ''tables'' (PList []) = PList [PStr ''sales'']"
    by (simp add: tables_found_def dict_get_default_def)
  have e'': "dict_get_default sql_found ''sql'' (PStr []) = PStr ''SELECT 1'' \<and>
             dict_get_default sql_found ''row_count'' (PInt 0) = PInt 1"
    by (simp add: sql_found_def dict_get_default_def)
  from a b c d' e' f d'' e'' show ?thesis by simp
qed

text \<open>
  C10. For a reply with status \<open>completed\<close>, \<open>_call_agent\<close> returns the dictionary
  \<open>{"error": ...}\<close> whenever the artifact list is empty (or absent, or otherwise
  false), although the server does produce such records; when the list starts with an
  artifact, the result is that artifact's \<open>content\<close> and the others are not read.
\<close>

theorem completed_without_artifacts_is_error:
  "agents agent_name = Some agent \<and> send (endpoint_url agent) sk params = Inr (PDict r) \<and>
   dict_get r ''status'' = Some (PStr ''completed'') \<longrightarrow>
     (\<not> truthy (dict_get_default r ''artifacts'' (PList [])) \<longrightarrow>
        call_agent agents send agent_name sk params =
          Inr (PDict [(''error'', dict_get_default r ''error'' (PStr ''Unknown error''))])) \<and>
     (dict_get_default r ''artifacts'' (PList []) = PList (PDict a # others) \<longrightarrow>
        call_agent agents send agent_name sk params =
          Inr (dict_get_default a ''content'' (PDict [])))"
proof (intro impI conjI)
  assume reply: "agents agent_name = Some agent \<and>
    send (endpoint_url agent) sk params = Inr (PDict r) \<and>
    dict_get r ''status'' = Some (PStr ''completed'')"
  then have st: "dict_get_default r ''status'' PNone = PStr ''completed''"
    by (simp add: dict_get_def dict_get_default_def)
  {
    assume "\<not> truthy (dict_get_default r ''artifacts'' (PList []))"
    then have "call_agent_reply (PDict r) =
                 Inr (PDict [(''error'', dict_get_default r ''error'' (PStr ''Unknown error''))])"
      by (simp add: call_agent_reply_def st error_result_def py_get_def)
    then show "call_agent agents send agent_name sk params =
                 Inr (PDict [(''error'', dict_get_default r ''error'' (PStr ''Unknown error''))])"
      using reply by (simp add: call_agent_def)
  }
  {
    assume "dict_get_default r ''artifacts'' (PList []) = PList (PDict a # others)"
    then have "call_agent_reply (PDict r) = Inr (dict_get_default a ''content'' (PDict []))"
      by (simp add: call_agent_reply_def st py_get_def)
    then show "call_agent agents send agent_name sk params =
                 Inr (dict_get_default a ''content'' (PDict []))"
      using reply by (simp add: call_agent_def)
  }
qed

theorem completed_without_artifacts_is_error_witness:
  "call_agent discovery_only empty_sender ''data_discovery'' ''discover-tables'' [] =
     Inr (PDict [(''error'', PNone)]) \<and>
   call_agent discovery_only discovery_sender ''data_discovery'' ''discover-tables'' [] =
     Inr (PDict tables_found)"
proof -
  let ?empty = "[(''task_id'', PStr ''t2''), (''status'', PStr ''completed''),
                 (''artifacts'', PList []), (''error'', PNone),
                 (''created_at'', PStr ''10:00''), (''updated_at'', PStr ''10:01'')]"
  let ?full = "[(''task_id'', PStr ''t1''), (''status'', PStr ''completed''),
                (''artifacts'',
                   PList [PDict [(''type'', PStr ''json''),
                                 (''content'', PDict tables_found),
                                 (''metadata'', PDict [])]]),
                (''error'', PNone)]"
  have e: "discovery_only ''data_discovery'' = Some discovery_endpoint \<and>
           empty_sender (endpoint_url discovery_endpoint) ''discover-tables'' [] = Inr (PDict ?empty) \<and>
           dict_get ?empty ''status'' = Some (PStr ''completed'')"
    by (simp add: discovery_only_def empty_sender_def task_dict_def dict_get_def)
  have e': "\<not> truthy (dict_get_default ?empty ''artifacts'' (PList []))"
    by (simp add: dict_get_default_def)
  have f: "discovery_only ''data_discovery'' = Some discovery_endpoint \<and>
           discovery_sender (endpoint_url discovery_endpoint) ''discover-tables'' [] = Inr (PDict ?full) \<and>
           dict_get ?full ''status'' = Some (PStr ''completed'')"
    by (simp add: discovery_only_def discovery_sender_def dict_get_def)
  have f': "dict_get_default ?full ''artifacts'' (PList []) =
              PList (PDict [(''type'', PStr ''json''), (''content'', PDict tables_found),
                            (''metadata'', PDict [])] # [])"
    by (simp add: dict_get_default_def)
  note t = completed_without_artifacts_is_error
  have a: "call_agent discovery_only empty_sender ''data_discovery'' ''discover-tables'' [] =
             Inr (PDict [(''error'', PNone)])"
    using t [where agents = discovery_only and send = empty_sender and r = ?empty
               and agent_name = "''data_discovery''" and agent = discovery_endpoint
               and sk = "''discover-tables''" and params = "[]"] e e'
    by (simp add: dict_get_default_def)
  have b: "call_agent discovery_only discovery_sender ''data_discovery'' ''discover-tables'' [] =
             Inr (PDict tables_found)"
    using t [where agents = discovery_only and send = discovery_sender and r = ?full
               and agent_name = "''data_discovery''" and agent = discovery_endpoint
               and sk = "''discover-tables''" and params = "[]"
               and a = "[(''type'', PStr ''json''), (''content'', PDict tables_found),
                         (''metadata'', PDict [])]" and others = "[]"] f f'
    by (simp add: dict_get_default_def)
  from a b show ?thesis by simp
qed

end
